theory Spec2Isabelle
  imports Complex_Main
begin

section \<open>Python values and exceptions\<close>

text \<open>
  The program is Python over numpy. Floating-point numbers are idealised as
  \<^typ>\<open>real\<close>; every \<^verbatim>\<open>raise\<close>, failed \<^verbatim>\<open>assert\<close>, failed subscript and
  \<^verbatim>\<open>sys.exit\<close> is a value of \<open>error\<close>, and a function that can raise returns
  \<open>error + 'a\<close> with \<open>Inl\<close> for the exception.
\<close>

datatype error =
    NoImplSuchMaterial string
  | KeyError
  | IndexError
  | ValueError
  | TypeError
  | AttributeError
  | AssertionError
  | ZeroDivisionError
  | SystemExit int
  | Raised string

section \<open>femdb/NLDomain.py: choice of the incremental algorithm\<close>

text \<open>
  The three solver entry points live in modules outside the sources at hand; a call of one
  of them is \<open>run alg\<close>, an arbitrary fallible transformer of the analysis state.
  \<open>searc\<close> is the truth value of \<^verbatim>\<open>CON.searc\<close>.
\<close>

datatype algorithm =
    NewtonRaphsonAlgorithm
  | LineSearchNewtonRaphsonAlgorithm
  | ArcLengthNewtonRaphsonAlgorithm

record SolveControl =
  arcln :: real
  searc :: bool

definition ChooseIncrementalAlgorithm ::
  "(algorithm \<Rightarrow> 's \<Rightarrow> error + 's) \<Rightarrow> SolveControl \<Rightarrow> 's \<Rightarrow> error + 's" where
  "ChooseIncrementalAlgorithm run CON s =
     (if \<bar>arcln CON\<bar> = 0 then
        (if \<not> searc CON then run NewtonRaphsonAlgorithm s
         else run LineSearchNewtonRaphsonAlgorithm s)
      else run ArcLengthNewtonRaphsonAlgorithm s)"

text \<open>A solver entry point that only records that it ran.\<close>

definition record_run :: "algorithm \<Rightarrow> algorithm list \<Rightarrow> error + algorithm list" where
  "record_run alg trace = Inr (trace @ [alg])"

section \<open>element/Beam.py\<close>

datatype BeamSectionType = Section_I | Rectangle | CircleSolid | OtherSection string

datatype SectionKey = It | Is | Tor | Area

datatype CharacterKey =
  MaterialKey_E | MaterialKey_G | MaterialKey_Kappa | PropertyKey_ThicknessOrArea

definition true_divide :: "real \<Rightarrow> real \<Rightarrow> error + real" where
  "true_divide a b = (if b \<noteq> 0 then Inr (a / b) else Inl ZeroDivisionError)"

definition bindE :: "error + 'a \<Rightarrow> ('a \<Rightarrow> error + 'b) \<Rightarrow> error + 'b" where
  "bindE m f = (case m of Inl e \<Rightarrow> Inl e | Inr x \<Rightarrow> f x)"

text \<open>
  \<^verbatim>\<open>BeamCalculator.CalculateMomentOfInertiaOfArea(sec_type, sec_data)\<close>: the result
  dictionary is the association list of its three entries. A division of Python floats
  by zero raises; an unknown section type logs and calls \<^verbatim>\<open>sys.exit(1)\<close>.
\<close>

definition CalculateMomentOfInertiaOfArea ::
  "BeamSectionType \<Rightarrow> real list \<Rightarrow> error + (SectionKey \<times> real) list" where
  "CalculateMomentOfInertiaOfArea sec_type sec_data =
    (case sec_type of
       Section_I \<Rightarrow>
         if length sec_data \<noteq> 6 then Inl AssertionError
         else
           let w = sec_data ! 0; h = sec_data ! 2; tf = sec_data ! 3; tw = sec_data ! 5;
               It_v = w * h ^ 3 / 12 - (w - tw) * (h - 2 * tf) ^ 3 / 12;
               Is_v = (h - 2 * tf) * tw ^ 3 / 12 + tf * w ^ 3 / 6;
               a = sec_data ! 0; b = sec_data ! 3; c = sec_data ! 2 - 2 * sec_data ! 3;
               d = sec_data ! 5
           in bindE (true_divide (0.0175 * b ^ 8) (a ^ 4)) (\<lambda>q.
              let K1 = a * b ^ 3 / 3 - 0.21 * b ^ 4 - q;
                  K2 = c * d ^ 3 / 3
              in bindE (true_divide (b ^ 2 + d * d * 0.25) b) (\<lambda>D.
                 bindE (if b < d then bindE (true_divide b d) (\<lambda>r. Inr (r * 0.15))
                        else bindE (true_divide d b) (\<lambda>r. Inr (r * 0.15))) (\<lambda>alpha.
                 Inr [(It, It_v), (Is, Is_v), (Tor, 2 * K1 + K2 + 2 * alpha * D ^ 4)])))
     | Rectangle \<Rightarrow>
         if length sec_data \<noteq> 2 then Inl AssertionError
         else
           let a = Max (set sec_data); b = Min (set sec_data);
               It_v = b ^ 3 * a / 12;
               Is_v = a ^ 3 * b / 12
           in if a = b then Inr [(It, It_v), (Is, Is_v), (Tor, 9 * a ^ 4 / 64)]
              else bindE (true_divide (3.36 * b) a) (\<lambda>q.
                   bindE (true_divide b a) (\<lambda>r.
                   Inr [(It, It_v), (Is, Is_v),
                        (Tor, a * b ^ 3 * (16 / 3 - q * (1 - r ^ 4 / 12)) / 16)]))
     | CircleSolid \<Rightarrow>
         if length sec_data \<noteq> 1 then Inl AssertionError
         else
           let I = 0.25 * pi * (sec_data ! 0) ^ 4
           in Inr [(It, I), (Is, I), (Tor, I * 2)]
     | OtherSection _ \<Rightarrow> Inl (SystemExit 1))"

text \<open>
  The class \<^verbatim>\<open>BeamCalculator\<close> defines \<^verbatim>\<open>CalculateMomentOfInertiaOfArea\<close> and
  \<^verbatim>\<open>CalEffectiveShearArea\<close> and nothing else, so the attribute lookup
  \<^verbatim>\<open>BeamCalculator.GetEquivalentCoff\<close> raises before any call is made.
\<close>

definition BeamCalculator_GetEquivalentCoff :: "BeamSectionType \<Rightarrow> error + (real \<times> real)" where
  "BeamCalculator_GetEquivalentCoff sec_type = Inl AttributeError"

record Beam188 =
  node_coords :: "real list list"
  cha_dict :: "CharacterKey \<rightharpoonup> real"
  sec_type :: BeamSectionType
  sec_data :: "real list"

definition shape :: "real list list \<Rightarrow> nat \<times> nat" where
  "shape M = (length M, (case M of [] \<Rightarrow> 0 | r # _ \<Rightarrow> length r))"

definition dict_get :: "('k \<rightharpoonup> 'v) \<Rightarrow> 'k \<Rightarrow> error + 'v" where
  "dict_get d k = (case d k of Some v \<Rightarrow> Inr v | None \<Rightarrow> Inl KeyError)"

text \<open>
  \<^verbatim>\<open>Beam188.ElementStiffness\<close>. A Python function that reaches its end without
  \<^verbatim>\<open>return\<close> yields \<^verbatim>\<open>None\<close>: the result is \<open>Inr None\<close> then, and
  \<open>Inr (Some K)\<close> would be a returned matrix. After the lookup of
  \<^verbatim>\<open>GetEquivalentCoff\<close> the source multiplies the float \<^verbatim>\<open>E\<close> by the dictionary
  \<^verbatim>\<open>I\<close> (a \<^verbatim>\<open>TypeError\<close>); the lines after it hold no \<^verbatim>\<open>return\<close>, the one
  that was there is commented out.
\<close>

definition ElementStiffness :: "Beam188 \<Rightarrow> error + real list list option" where
  "ElementStiffness self =
    (if shape (node_coords self) \<noteq> (3, 3) then Inl AssertionError
     else
       let delta = map2 (\<lambda>x1 x0. x1 - x0) (node_coords self ! 1) (node_coords self ! 0)
       in bindE (dict_get (cha_dict self) MaterialKey_E) (\<lambda>E.
          bindE (dict_get (cha_dict self) PropertyKey_ThicknessOrArea) (\<lambda>A.
          bindE (dict_get (cha_dict self) MaterialKey_G) (\<lambda>G.
          let L = sqrt (sum_list (map (\<lambda>x. x * x) delta))
          in bindE (CalculateMomentOfInertiaOfArea (sec_type self) (sec_data self)) (\<lambda>I.
             bindE (BeamCalculator_GetEquivalentCoff (sec_type self)) (\<lambda>(k1, k2).
             Inl TypeError))))))"

section \<open>femdb/NLDomain.py: the objects of the analysis domain\<close>

text \<open>
  Objects live in a heap, addressed by their identity. An instance of a class defined in
  \<^verbatim>\<open>NLDomain.py\<close> is modelled with its attributes; an instance of a class from another
  module (\<^verbatim>\<open>NLFEMDataBase\<close>, \<^verbatim>\<open>RightHandItem\<close>, \<^verbatim>\<open>Kinematics\<close>,
  \<^verbatim>\<open>Plasticity\<close>) is opaque, and the constructor of such a class is the parameter
  \<open>ext\<close> of the model, applied to the class name. \<open>None\<close> is Python's \<^verbatim>\<open>None\<close>.
\<close>

type_synonym addr = nat

record IdentityTensor =
  I :: "real list list"
  c1 :: "real list list list list"
  c2 :: "real list list list list"

record AuxVariant =
  aux_ngauss :: "nat option"
  aux_n_dofs_elem :: "nat option"
  aux_weight :: "real list option"
  aux_DN_Dchi :: "real list list list option"
  aux_n_nodes_element :: "nat option"
  aux_n_face_dofs_elem :: "nat option"
  aux_boundary_ngauss :: "nat option"

record GlobalK =
  indexi :: "int list option"
  indexj :: "int list option"
  counter :: "nat option"
  stiffness :: "real list option"

datatype pyobject =
    NLDomain_object "string \<rightharpoonup> addr"
  | IdentityTensor_object IdentityTensor
  | AuxVariant_object AuxVariant
  | GlobalK_object GlobalK
  | Foreign_object string

record world =
  NLDomain_instance :: "addr option"
  GlobalInfor_Dimension :: "nat option"
  heap :: "addr \<rightharpoonup> pyobject"
  next_addr :: addr

definition allocate :: "pyobject \<Rightarrow> world \<Rightarrow> addr \<times> world" where
  "allocate obj w =
     (next_addr w, w\<lparr>heap := (heap w)(next_addr w \<mapsto> obj), next_addr := Suc (next_addr w)\<rparr>)"

text \<open>
  \<^verbatim>\<open>IdentityTensor.__init__\<close>: the four nested loops visit every index once and add
  the products of entries of \<^verbatim>\<open>I\<close> to arrays of zeros.
\<close>

definition eye :: "nat \<Rightarrow> real list list" where
  "eye n = map (\<lambda>i. map (\<lambda>j. if i = j then 1 else 0) [0..<n]) [0..<n]"

definition IdentityTensor_init :: "nat \<Rightarrow> IdentityTensor" where
  "IdentityTensor_init dimension =
     (let e = eye dimension; r = [0..<dimension]
      in \<lparr>I = e,
          c1 = map (\<lambda>i. map (\<lambda>j. map (\<lambda>k. map (\<lambda>l.
                 0 + e ! i ! j * e ! k ! l) r) r) r) r,
          c2 = map (\<lambda>i. map (\<lambda>j. map (\<lambda>k. map (\<lambda>l.
                 0 + e ! i ! k * e ! j ! l + e ! i ! l * e ! j ! k) r) r) r) r\<rparr>)"

definition AuxVariant_init :: AuxVariant where
  "AuxVariant_init =
     \<lparr>aux_ngauss = None, aux_n_dofs_elem = None, aux_weight = None, aux_DN_Dchi = None,
      aux_n_nodes_element = None, aux_n_face_dofs_elem = None, aux_boundary_ngauss = None\<rparr>"

definition GlobalK_init :: GlobalK where
  "GlobalK_init = \<lparr>indexi = None, indexj = None, counter = None, stiffness = None\<rparr>"

text \<open>\<^verbatim>\<open>self.name = value\<close> on an instance of \<^verbatim>\<open>NLDomain\<close>.\<close>

definition setattr :: "addr \<Rightarrow> string \<Rightarrow> addr \<times> world \<Rightarrow> error + world" where
  "setattr self name vw =
     (case heap (snd vw) self of
        Some (NLDomain_object d) \<Rightarrow>
          Inr ((snd vw)\<lparr>heap := (heap (snd vw))(self \<mapsto> NLDomain_object (d(name \<mapsto> fst vw)))\<rparr>)
      | _ \<Rightarrow> Inl AttributeError)"

text \<open>
  \<^verbatim>\<open>NLDomain.__new__\<close>: the class variable \<^verbatim>\<open>_instance\<close> is filled at the first
  call and returned at every call.
\<close>

definition NLDomain_new :: "world \<Rightarrow> addr \<times> world" where
  "NLDomain_new w =
     (case NLDomain_instance w of
        None \<Rightarrow> (let (a, w') = allocate (NLDomain_object Map.empty) w
                 in (a, w'\<lparr>NLDomain_instance := Some a\<rparr>))
      | Some a \<Rightarrow> (a, w))"

text \<open>\<^verbatim>\<open>NLDomain.__init__\<close>: seven assignments, each of a newly constructed object.\<close>

definition NLDomain_init ::
  "(string \<Rightarrow> world \<Rightarrow> error + addr \<times> world) \<Rightarrow> addr \<Rightarrow> world \<Rightarrow> error + world" where
  "NLDomain_init ext self w0 =
     bindE (bindE (ext ''NLFEMDataBase'' w0) (setattr self ''fem_db'')) (\<lambda>w1.
     bindE (case GlobalInfor_Dimension w1 of
              None \<Rightarrow> Inl KeyError
            | Some dimension \<Rightarrow>
                setattr self ''identity_tensor''
                  (allocate (IdentityTensor_object (IdentityTensor_init dimension)) w1)) (\<lambda>w2.
     bindE (bindE (ext ''RightHandItem'' w2) (setattr self ''right_hand_item'')) (\<lambda>w3.
     bindE (bindE (ext ''Kinematics'' w3) (setattr self ''kinematics'')) (\<lambda>w4.
     bindE (bindE (ext ''Plasticity'' w4) (setattr self ''plastics'')) (\<lambda>w5.
     bindE (setattr self ''aux_variant'' (allocate (AuxVariant_object AuxVariant_init) w5)) (\<lambda>w6.
     setattr self ''global_k'' (allocate (GlobalK_object GlobalK_init) w6)))))))"

text \<open>
  The call \<^verbatim>\<open>NLDomain()\<close>: Python runs \<^verbatim>\<open>__new__\<close> and then, on the object it
  returned, \<^verbatim>\<open>__init__\<close>, at every call.
\<close>

definition NLDomain_call ::
  "(string \<Rightarrow> world \<Rightarrow> error + addr \<times> world) \<Rightarrow> world \<Rightarrow> error + addr \<times> world" where
  "NLDomain_call ext w =
     (let (self, w') = NLDomain_new w
      in bindE (NLDomain_init ext self w') (\<lambda>w''. Inr (self, w'')))"

text \<open>Reading \<^verbatim>\<open>dm.name\<close> and the \<^verbatim>\<open>GlobalK\<close> behind \<^verbatim>\<open>dm.global_k\<close>.\<close>

definition getattr :: "world \<Rightarrow> addr \<Rightarrow> string \<Rightarrow> addr option" where
  "getattr w self name =
     (case heap w self of Some (NLDomain_object d) \<Rightarrow> d name | _ \<Rightarrow> None)"

definition global_k_of :: "world \<Rightarrow> addr \<Rightarrow> GlobalK option" where
  "global_k_of w self =
     (case getattr w self ''global_k'' of
        None \<Rightarrow> None
      | Some g \<Rightarrow> (case heap w g of Some (GlobalK_object k) \<Rightarrow> Some k | _ \<Rightarrow> None))"

text \<open>\<^verbatim>\<open>dm.global_k.counter = n\<close>, as an assembly pass does when it resets the cursor.\<close>

definition set_counter :: "addr \<Rightarrow> nat \<Rightarrow> world \<Rightarrow> world" where
  "set_counter self n w =
     (case getattr w self ''global_k'' of
        None \<Rightarrow> w
      | Some g \<Rightarrow>
          (case heap w g of
             Some (GlobalK_object k) \<Rightarrow>
               w\<lparr>heap := (heap w)(g \<mapsto> GlobalK_object (k\<lparr>counter := Some n\<rparr>))\<rparr>
           | _ \<Rightarrow> w))"

text \<open>
  A constructor of a foreign class that allocates a new opaque object, and the world
  before the first construction, with the dimension set as the module's own main block
  sets it.
\<close>

definition plain_constructor :: "string \<Rightarrow> world \<Rightarrow> error + addr \<times> world" where
  "plain_constructor cls w = Inr (allocate (Foreign_object cls) w)"

definition initial_world :: world where
  "initial_world =
     \<lparr>NLDomain_instance = None, GlobalInfor_Dimension = Some 2, heap = Map.empty, next_addr = 0\<rparr>"

text \<open>
  What the theorems ask of a foreign constructor: it leaves \<^verbatim>\<open>NLDomain._instance\<close>
  alone and does not move the allocation pointer back.
\<close>

definition well_behaved :: "(string \<Rightarrow> world \<Rightarrow> error + addr \<times> world) \<Rightarrow> bool" where
  "well_behaved ext \<longleftrightarrow>
     (\<forall>cls w a w'. ext cls w = Inr (a, w') \<longrightarrow>
        NLDomain_instance w' = NLDomain_instance w \<and> next_addr w \<le> next_addr w')"

text \<open>
  A run of two constructions: the domain is built, an assembly pass resets the cursor of
  its \<^verbatim>\<open>global_k\<close> to zero, and \<^verbatim>\<open>NLDomain()\<close> is called again.
\<close>

definition built_once :: "error + addr \<times> world" where
  "built_once = NLDomain_call plain_constructor initial_world"

definition cursor_reset :: world where
  "cursor_reset = set_counter (fst (projr built_once)) 0 (snd (projr built_once))"

definition built_twice :: "error + addr \<times> world" where
  "built_twice = NLDomain_call plain_constructor cursor_reset"

section \<open>numpy arrays\<close>

text \<open>
  An array is the nested list of its entries, outermost axis first. A subscript beyond the
  end raises \<^verbatim>\<open>IndexError\<close>; a negative Python integer counts from the end (the
  array of a column subscript has at least one row). An
  elementwise operation asks for operands of one shape and raises \<^verbatim>\<open>ValueError\<close>
  otherwise (numpy's stretching of axes of length one is modelled only for the
  one-dimensional in-place operations \<open>np_iadd1\<close> and \<open>slice_assign\<close>). Division and
  logarithm are those of the reals: the model says nothing about \<^verbatim>\<open>inf\<close> and
  \<^verbatim>\<open>nan\<close>, which the program produces at a zero divisor or a non-positive
  argument of \<^verbatim>\<open>np.log\<close>.
\<close>

type_synonym matrix = "real list list"
type_synonym tensor3 = "real list list list"
type_synonym tensor4 = "real list list list list"

definition item :: "'a list \<Rightarrow> nat \<Rightarrow> error + 'a" where
  "item xs i = (if i < length xs then Inr (xs ! i) else Inl IndexError)"

text \<open>\<^verbatim>\<open>A[:, j]\<close>, \<^verbatim>\<open>A[:, :, g]\<close> and \<^verbatim>\<open>A[:, :, :, e]\<close>.\<close>

definition column :: "'a list list \<Rightarrow> nat \<Rightarrow> error + 'a list" where
  "column A j = (if list_all (\<lambda>r. j < length r) A then Inr (map (\<lambda>r. r ! j) A)
                 else Inl IndexError)"

definition ncols :: "'a list list \<Rightarrow> nat" where
  "ncols A = (case A of [] \<Rightarrow> 0 | r # _ \<Rightarrow> length r)"

definition column_int :: "'a list list \<Rightarrow> int \<Rightarrow> error + 'a list" where
  "column_int A i =
     (if 0 \<le> i \<and> list_all (\<lambda>r. nat i < length r) A \<and> A \<noteq> []
      then Inr (map (\<lambda>r. r ! nat i) A)
      else if i < 0 \<and> 0 \<le> i + int (ncols A) \<and> A \<noteq> []
             \<and> list_all (\<lambda>r. nat (i + int (ncols A)) < length r) A
      then Inr (map (\<lambda>r. r ! nat (i + int (ncols A))) A)
      else Inl IndexError)"

definition last_axis3 :: "'a list list list \<Rightarrow> nat \<Rightarrow> error + 'a list list" where
  "last_axis3 A g =
     (if list_all (list_all (\<lambda>v. g < length v)) A then Inr (map (map (\<lambda>v. v ! g)) A)
      else Inl IndexError)"

definition last_axis4 :: "'a list list list list \<Rightarrow> nat \<Rightarrow> error + 'a list list list" where
  "last_axis4 A e =
     (if list_all (list_all (list_all (\<lambda>v. e < length v))) A
      then Inr (map (map (map (\<lambda>v. v ! e))) A) else Inl IndexError)"

definition zeros2 :: "nat \<Rightarrow> nat \<Rightarrow> matrix" where
  "zeros2 m n = replicate m (replicate n 0)"

definition scale2 :: "real \<Rightarrow> matrix \<Rightarrow> matrix" where
  "scale2 a A = map (map (\<lambda>x. a * x)) A"

definition divide2 :: "matrix \<Rightarrow> real \<Rightarrow> matrix" where
  "divide2 A a = map (map (\<lambda>x. x / a)) A"

definition scale4 :: "real \<Rightarrow> tensor4 \<Rightarrow> tensor4" where
  "scale4 a A = map (map (map (map (\<lambda>x. a * x)))) A"

definition np_add2 :: "matrix \<Rightarrow> matrix \<Rightarrow> error + matrix" where
  "np_add2 A B =
     (if list_all2 (\<lambda>r r'. length r = length r') A B
      then Inr (map2 (map2 (\<lambda>x y. x + y)) A B) else Inl ValueError)"

definition same_shape4 :: "tensor4 \<Rightarrow> tensor4 \<Rightarrow> bool" where
  "same_shape4 A B = list_all2 (list_all2 (list_all2 (\<lambda>v v'. length v = length v'))) A B"

definition np_add4 :: "tensor4 \<Rightarrow> tensor4 \<Rightarrow> error + tensor4" where
  "np_add4 A B =
     (if same_shape4 A B
      then Inr (map2 (map2 (map2 (map2 (\<lambda>x y. x + y)))) A B) else Inl ValueError)"

definition np_sub4 :: "tensor4 \<Rightarrow> tensor4 \<Rightarrow> error + tensor4" where
  "np_sub4 A B =
     (if same_shape4 A B
      then Inr (map2 (map2 (map2 (map2 (\<lambda>x y. x - y)))) A B) else Inl ValueError)"

definition transpose2 :: "matrix \<Rightarrow> matrix" where
  "transpose2 A = map (\<lambda>j. map (\<lambda>r. r ! j) A) [0..<ncols A]"

definition matmul :: "matrix \<Rightarrow> matrix \<Rightarrow> error + matrix" where
  "matmul A B =
     (if list_all (\<lambda>r. length r = length B) A \<and> list_all (\<lambda>r. length r = ncols B) B
      then Inr (map (\<lambda>r. map (\<lambda>j. \<Sum>k\<leftarrow>[0..<length B]. r ! k * B ! k ! j) [0..<ncols B]) A)
      else Inl ValueError)"

definition outer :: "real list \<Rightarrow> real list \<Rightarrow> matrix" where
  "outer a b = map (\<lambda>x. map (\<lambda>y. x * y) b) a"

text \<open>\<^verbatim>\<open>np.tile(v, (1, n))\<close> of a one-dimensional \<^verbatim>\<open>v\<close>, flattened.\<close>

definition tile_flat :: "'a list \<Rightarrow> nat \<Rightarrow> 'a list" where
  "tile_flat v n = concat (replicate n v)"

text \<open>\<^verbatim>\<open>a += b\<close> on column vectors: \<^verbatim>\<open>b\<close> of the same length, or of length one.\<close>

definition np_iadd1 :: "real list \<Rightarrow> real list \<Rightarrow> error + real list" where
  "np_iadd1 a b =
     (if length b = length a then Inr (map2 (\<lambda>x y. x + y) a b)
      else if length b = 1 then Inr (map (\<lambda>x. x + hd b) a)
      else Inl ValueError)"

text \<open>
  \<^verbatim>\<open>buf[c:c + n, 0] = vals\<close>: the slice is cut at the end of the buffer, and the
  values must have the length of the slice or length one.
\<close>

definition slice_assign :: "'a list \<Rightarrow> nat \<Rightarrow> nat \<Rightarrow> 'a list \<Rightarrow> error + 'a list" where
  "slice_assign buf c n vals =
     (let start = min c (length buf); stop = min (c + n) (length buf); m = stop - start
      in if length vals = m then Inr (take start buf @ vals @ drop stop buf)
         else if length vals = 1 then Inr (take start buf @ replicate m (hd vals) @ drop stop buf)
         else Inl ValueError)"

section \<open>element\_calculation/ElementForceAndStiffness.py\<close>

text \<open>
  The database object \<^verbatim>\<open>fem_db\<close> and what the function reads through it. The module
  binds \<^verbatim>\<open>KINEMATICS\<close>, \<^verbatim>\<open>IDENTITY_TENSOR\<close>, \<^verbatim>\<open>MESH\<close> and the three triplet arrays
  to attributes of \<^verbatim>\<open>fem_db\<close> when it is imported; the model reads them from the
  current state, that is, the attributes are taken not to be rebound afterwards.
  \<open>ndim\<close> is the module's \<^verbatim>\<open>dim\<close>, the value of \<^verbatim>\<open>GetDomainDimension()\<close>.
  The record's extension slot is the
  rest of the program state, which functions of other modules may use.
\<close>

record Kinematics =
  Jx_chi :: "real list"
  DN_Dx :: tensor3

record material =
  isinstance_HyperElasticPlasticInPrincipal :: bool
  GetName :: string
  value_dict :: "CharacterKey \<rightharpoonup> real"

record NLFEMDataBase =
  kinematics :: Kinematics
  global_k :: GlobalK
  identity_tensor :: IdentityTensor
  Mesh_dof_nodes :: "int list list"
  Material_Mat :: "nat \<rightharpoonup> material"

record PlasticDeformationState =
  epbar :: "real list"
  invCp :: tensor3

record ElementGroup =
  n_dofs_elem :: nat
  n_nodes_elem :: nat
  ngauss :: nat
  interpolation_element_DN_chi :: tensor3
  quadrature_element_w :: "real list"
  interpolation_quadrature_element_w :: "real list"
  global_plasticity_epbar :: matrix
  global_plasticity_invCp :: tensor4

record ElementBaseClass =
  node_ids :: "int list"

text \<open>A computation on the program state that may raise; the state at the raise is kept.\<close>

type_synonym ('a, 's) prog = "'s \<Rightarrow> (error + 'a) \<times> 's"

definition returnS :: "'a \<Rightarrow> ('a, 's) prog" where
  "returnS x s = (Inr x, s)"

definition liftE :: "error + 'a \<Rightarrow> ('a, 's) prog" where
  "liftE r s = (r, s)"

definition bindS :: "('a, 's) prog \<Rightarrow> ('a \<Rightarrow> ('b, 's) prog) \<Rightarrow> ('b, 's) prog" where
  "bindS m f s = (case m s of (Inl e, s') \<Rightarrow> (Inl e, s') | (Inr x, s') \<Rightarrow> f x s')"

text \<open>
  The functions of other modules that \<^verbatim>\<open>ElementForceAndStiffness\<close> calls. Their
  sources are not at hand; each is a parameter, an arbitrary computation on the state.
  \<open>'g\<close> is the type of \<^verbatim>\<open>PLAST_gauss\<close>; \<^verbatim>\<open>CauchyTypeSelection\<close> also hands back
  the plastic state of the element, which it may have updated in place.
\<close>

record ('g, 's) collaborators =
  ComputeGradients :: "matrix \<Rightarrow> matrix \<Rightarrow> tensor3 \<Rightarrow> (unit, 's) prog"
  CauchyTypeSelection ::
    "PlasticDeformationState \<Rightarrow> nat \<Rightarrow> material \<Rightarrow>
       (matrix \<times> 'g \<times> PlasticDeformationState, 's) prog"
  ElasticityModulusSelection ::
    "PlasticDeformationState \<Rightarrow> 'g \<Rightarrow> nat \<Rightarrow> nat \<Rightarrow> (tensor4, 's) prog"
  ConstitutiveMatrix ::
    "ElementGroup \<Rightarrow> ElementBaseClass \<Rightarrow> nat \<Rightarrow> tensor4 \<Rightarrow> real \<Rightarrow> (unit, 's) prog"
  GeometricMatrix ::
    "ElementGroup \<Rightarrow> ElementBaseClass \<Rightarrow> matrix \<Rightarrow> real \<Rightarrow> (unit, 's) prog"

subsection \<open>Mean dilatation kinematics, pressure and bulk modulus (lines 43 to 69)\<close>

fun mean_dilatation_gauss ::
  "ElementGroup \<Rightarrow> Kinematics \<Rightarrow> nat list \<Rightarrow> real \<times> matrix \<Rightarrow> error + real \<times> matrix" where
  "mean_dilatation_gauss grp kin [] acc = Inr acc"
| "mean_dilatation_gauss grp kin (ii # rest) acc =
     bindE (item (Jx_chi kin) ii) (\<lambda>J.
     bindE (item (quadrature_element_w grp) ii) (\<lambda>w.
     let JW = J * w; ve = fst acc + JW
     in bindE (last_axis3 (interpolation_element_DN_chi grp) ii) (\<lambda>DN_chi.
        bindE (np_add2 (snd acc) (scale2 JW DN_chi)) (\<lambda>DN_x_mean.
        mean_dilatation_gauss grp kin rest (ve, DN_x_mean)))))"

definition mean_dilatation_pressure :: "material \<Rightarrow> real \<Rightarrow> error + real \<times> real" where
  "mean_dilatation_pressure mat Jbar =
     (if isinstance_HyperElasticPlasticInPrincipal mat then
        bindE (dict_get (value_dict mat) MaterialKey_Kappa) (\<lambda>kappa.
        let press = kappa * ln Jbar / Jbar;
            kappa_bar = kappa / Jbar - press
        in Inr (kappa_bar, press))
      else Inr (0, 0))"

text \<open>The block returns \<^verbatim>\<open>DN_x_mean\<close>, \<^verbatim>\<open>ve\<close>, \<^verbatim>\<open>kappa_bar\<close> and \<^verbatim>\<open>press\<close>.\<close>

definition mean_dilatation ::
  "nat \<Rightarrow> ElementGroup \<Rightarrow> Kinematics \<Rightarrow> material \<Rightarrow> real \<Rightarrow>
     error + matrix \<times> real \<times> real \<times> real" where
  "mean_dilatation ndim grp kin mat Ve =
     (if isinstance_HyperElasticPlasticInPrincipal mat then
        bindE (mean_dilatation_gauss grp kin [0..<ngauss grp]
                 (0, zeros2 ndim (n_nodes_elem grp))) (\<lambda>(ve, DN_x_mean_sum).
        let DN_x_mean = divide2 DN_x_mean_sum ve;
            Jbar = ve / Ve
        in bindE (mean_dilatation_pressure mat Jbar) (\<lambda>(kappa_bar, press).
           Inr (DN_x_mean, ve, kappa_bar, press)))
      else Inl (NoImplSuchMaterial (GetName mat)))"

text \<open>The same block with the inner type check taken out and its first branch kept.\<close>

definition mean_dilatation_unconditional ::
  "nat \<Rightarrow> ElementGroup \<Rightarrow> Kinematics \<Rightarrow> material \<Rightarrow> real \<Rightarrow>
     error + matrix \<times> real \<times> real \<times> real" where
  "mean_dilatation_unconditional ndim grp kin mat Ve =
     (if isinstance_HyperElasticPlasticInPrincipal mat then
        bindE (mean_dilatation_gauss grp kin [0..<ngauss grp]
                 (0, zeros2 ndim (n_nodes_elem grp))) (\<lambda>(ve, DN_x_mean_sum).
        let DN_x_mean = divide2 DN_x_mean_sum ve;
            Jbar = ve / Ve
        in bindE (dict_get (value_dict mat) MaterialKey_Kappa) (\<lambda>kappa.
           let press = kappa * ln Jbar / Jbar;
               kappa_bar = kappa / Jbar - press
           in Inr (DN_x_mean, ve, kappa_bar, press)))
      else Inl (NoImplSuchMaterial (GetName mat)))"

subsection \<open>The plastic state of the element (lines 78 to 83)\<close>

definition plastic_state ::
  "ElementGroup \<Rightarrow> material \<Rightarrow> nat \<Rightarrow> error + PlasticDeformationState" where
  "plastic_state grp mat ele_idx =
     (if isinstance_HyperElasticPlasticInPrincipal mat then
        bindE (column (global_plasticity_epbar grp) ele_idx) (\<lambda>ep.
        bindE (last_axis4 (global_plasticity_invCp grp) ele_idx) (\<lambda>ic.
        Inr \<lparr>epbar = ep, invCp = ic\<rparr>))
      else Inl (NoImplSuchMaterial (GetName mat)))"

subsection \<open>The Gauss quadrature loop (lines 87 to 123)\<close>

text \<open>
  Lines 94 and 95, the pressure added to the stress and to the elasticity tensor, and line
  120, the matrix handed to \<^verbatim>\<open>GeometricMatrix\<close>.
\<close>

definition add_pressure_to_stress :: "real \<Rightarrow> IdentityTensor \<Rightarrow> matrix \<Rightarrow> error + matrix" where
  "add_pressure_to_stress press ident Cauchy0 = np_add2 Cauchy0 (scale2 press (I ident))"

definition add_pressure_to_elasticity ::
  "real \<Rightarrow> IdentityTensor \<Rightarrow> tensor4 \<Rightarrow> error + tensor4" where
  "add_pressure_to_elasticity press ident c0 =
     bindE (np_sub4 (c1 ident) (c2 ident)) (\<lambda>d. np_add4 c0 (scale4 press d))"

definition DN_sigma_DN_of :: "matrix \<Rightarrow> matrix \<Rightarrow> error + matrix" where
  "DN_sigma_DN_of stress DN = bindE (matmul stress DN) (matmul (transpose2 DN))"

text \<open>
  One pass of the loop body at Gauss point \<open>igauss\<close>, from the current internal force
  vector and plastic state to the next ones.
\<close>

definition gauss_point ::
  "('g, 'z NLFEMDataBase_scheme) collaborators \<Rightarrow> material \<Rightarrow> nat \<Rightarrow> real \<Rightarrow>
     ElementBaseClass \<Rightarrow> ElementGroup \<Rightarrow> nat \<Rightarrow> real list \<times> PlasticDeformationState \<Rightarrow>
     (real list \<times> PlasticDeformationState, 'z NLFEMDataBase_scheme) prog" where
  "gauss_point cs mat mat_id press ele grp igauss acc =
     bindS (CauchyTypeSelection cs (snd acc) igauss mat) (\<lambda>(Cauchy0, PLAST_gauss, PLAST_element).
     bindS (ElasticityModulusSelection cs PLAST_element PLAST_gauss igauss mat_id) (\<lambda>c0.
     bindS (\<lambda>s. (add_pressure_to_stress press (identity_tensor s) Cauchy0, s)) (\<lambda>Cauchy.
     bindS (\<lambda>s. (add_pressure_to_elasticity press (identity_tensor s) c0, s)) (\<lambda>c.
     bindS (\<lambda>s. (bindE (item (Jx_chi (kinematics s)) igauss) (\<lambda>J.
                  bindE (item (interpolation_quadrature_element_w grp) igauss) (\<lambda>w.
                  Inr (J * w))), s)) (\<lambda>JW.
     bindS (\<lambda>s. (bindE (last_axis3 (DN_Dx (kinematics s)) igauss) (matmul Cauchy), s)) (\<lambda>T.
     bindS (liftE (np_iadd1 (fst acc) (concat (transpose2 T)))) (\<lambda>T_internal.
     bindS (ConstitutiveMatrix cs grp ele igauss c JW) (\<lambda>_.
     bindS (\<lambda>s. (bindE (last_axis3 (DN_Dx (kinematics s)) igauss) (DN_sigma_DN_of Cauchy), s))
       (\<lambda>DN_sigma_DN.
     bindS (GeometricMatrix cs grp ele DN_sigma_DN JW) (\<lambda>_.
     returnS (T_internal, PLAST_element)))))))))))"

fun gauss_loop ::
  "('g, 'z NLFEMDataBase_scheme) collaborators \<Rightarrow> material \<Rightarrow> nat \<Rightarrow> real \<Rightarrow>
     ElementBaseClass \<Rightarrow> ElementGroup \<Rightarrow> nat list \<Rightarrow> real list \<times> PlasticDeformationState \<Rightarrow>
     (real list \<times> PlasticDeformationState, 'z NLFEMDataBase_scheme) prog" where
  "gauss_loop cs mat mat_id press ele grp [] acc = returnS acc"
| "gauss_loop cs mat mat_id press ele grp (igauss # rest) acc =
     bindS (gauss_point cs mat mat_id press ele grp igauss acc)
       (gauss_loop cs mat mat_id press ele grp rest)"

subsection \<open>The mean dilatation term of the stiffness matrix (lines 129 to 151)\<close>

text \<open>
  The body of the two loops for one pair \<^verbatim>\<open>(bnode, anode)\<close>, a computation on the
  local variable \<^verbatim>\<open>counter\<close> and the object \<^verbatim>\<open>fem_db.global_k\<close>, whose three
  arrays are assigned in place, one after the other. A cursor or an array that is still
  \<^verbatim>\<open>None\<close> makes the slice assignment a \<^verbatim>\<open>TypeError\<close>.
\<close>

definition need :: "'a option \<Rightarrow> error + 'a" where
  "need x = (case x of None \<Rightarrow> Inl TypeError | Some v \<Rightarrow> Inr v)"

definition write_slice :: "'a list option \<Rightarrow> nat option \<Rightarrow> nat \<Rightarrow> 'a list \<Rightarrow> error + 'a list" where
  "write_slice buf cnt n vals =
     bindE (need cnt) (\<lambda>c. bindE (need buf) (\<lambda>b. slice_assign b c n vals))"

definition node_pair ::
  "nat \<Rightarrow> matrix \<Rightarrow> int list list \<Rightarrow> int list \<Rightarrow> real \<Rightarrow> real \<Rightarrow> nat \<times> nat \<Rightarrow>
     (unit, nat option \<times> GlobalK) prog" where
  "node_pair ndim DN_x_mean dof_nodes nids kappa_bar ve ba =
     (let bnode = fst ba; anode = snd ba
      in bindS (liftE (column DN_x_mean anode)) (\<lambda>DNa.
         bindS (liftE (column DN_x_mean bnode)) (\<lambda>DNb.
         let DN_x_meana_DN_x_meanb = outer DNa DNb
         in bindS (liftE (item nids anode)) (\<lambda>ida.
            bindS (liftE (column_int dof_nodes (ida - 1))) (\<lambda>dofa.
            bindS (liftE (item nids bnode)) (\<lambda>idb.
            bindS (liftE (column_int dof_nodes (idb - 1))) (\<lambda>dofb.
            bindS (\<lambda>st. case write_slice (indexi (snd st)) (fst st) (ndim ^ 2)
                              (tile_flat dofa ndim) of
                         Inl e \<Rightarrow> (Inl e, st)
                       | Inr b \<Rightarrow> (Inr (), (fst st, (snd st)\<lparr>indexi := Some b\<rparr>))) (\<lambda>_.
            bindS (\<lambda>st. case write_slice (indexj (snd st)) (fst st) (ndim ^ 2)
                              (tile_flat dofb ndim) of
                         Inl e \<Rightarrow> (Inl e, st)
                       | Inr b \<Rightarrow> (Inr (), (fst st, (snd st)\<lparr>indexj := Some b\<rparr>))) (\<lambda>_.
            bindS (\<lambda>st. case write_slice (stiffness (snd st)) (fst st) (ndim ^ 2)
                              (map (\<lambda>x. kappa_bar * ve * x) (concat DN_x_meana_DN_x_meanb)) of
                         Inl e \<Rightarrow> (Inl e, st)
                       | Inr b \<Rightarrow> (Inr (), (fst st, (snd st)\<lparr>stiffness := Some b\<rparr>))) (\<lambda>_.
            (\<lambda>st. (Inr (), (map_option (\<lambda>c. c + ndim ^ 2) (fst st), snd st)))))))))))))"

fun node_pair_loop ::
  "nat \<Rightarrow> matrix \<Rightarrow> int list list \<Rightarrow> int list \<Rightarrow> real \<Rightarrow> real \<Rightarrow> (nat \<times> nat) list \<Rightarrow>
     (unit, nat option \<times> GlobalK) prog" where
  "node_pair_loop ndim DN_x_mean dof_nodes nids kappa_bar ve [] = returnS ()"
| "node_pair_loop ndim DN_x_mean dof_nodes nids kappa_bar ve (ba # rest) =
     bindS (node_pair ndim DN_x_mean dof_nodes nids kappa_bar ve ba)
       (\<lambda>_. node_pair_loop ndim DN_x_mean dof_nodes nids kappa_bar ve rest)"

text \<open>
  The pairs in the order of the two \<^verbatim>\<open>for\<close> statements: \<^verbatim>\<open>bnode\<close> outside,
  \<^verbatim>\<open>anode\<close> inside.
\<close>

definition node_pairs :: "nat \<Rightarrow> (nat \<times> nat) list" where
  "node_pairs n = List.product [0..<n] [0..<n]"

text \<open>
  The local \<^verbatim>\<open>counter\<close> starts as a copy of \<^verbatim>\<open>fem_db.global_k.counter\<close>. Its last
  value is dropped: the state that is returned holds the arrays as written and the cursor
  as it was.
\<close>

definition mean_dilatation_stiffness ::
  "nat \<Rightarrow> material \<Rightarrow> matrix \<Rightarrow> real \<Rightarrow> real \<Rightarrow> ElementBaseClass \<Rightarrow> ElementGroup \<Rightarrow>
     (unit, 'z NLFEMDataBase_scheme) prog" where
  "mean_dilatation_stiffness ndim mat DN_x_mean ve kappa_bar ele grp s =
     (if isinstance_HyperElasticPlasticInPrincipal mat then
        (case node_pair_loop ndim DN_x_mean (Mesh_dof_nodes s) (node_ids ele) kappa_bar ve
                (node_pairs (n_nodes_elem grp)) (counter (global_k s), global_k s) of
           (r, cnt, gk) \<Rightarrow> (r, s\<lparr>global_k := gk\<lparr>counter := counter (global_k s)\<rparr>\<rparr>))
      else (Inr (), s))"

subsection \<open>The function\<close>

definition ElementForceAndStiffness ::
  "('g, 'z NLFEMDataBase_scheme) collaborators \<Rightarrow> nat \<Rightarrow> matrix \<Rightarrow> matrix \<Rightarrow> nat \<Rightarrow> real \<Rightarrow>
     ElementBaseClass \<Rightarrow> ElementGroup \<Rightarrow> nat \<Rightarrow>
     (real list \<times> PlasticDeformationState, 'z NLFEMDataBase_scheme) prog" where
  "ElementForceAndStiffness cs ndim xlocal Xlocal mat_id Ve ele grp ele_idx =
     bindS (ComputeGradients cs xlocal Xlocal (interpolation_element_DN_chi grp)) (\<lambda>_.
     bindS (\<lambda>s. (dict_get (Material_Mat s) mat_id, s)) (\<lambda>mat.
     bindS (\<lambda>s. (mean_dilatation ndim grp (kinematics s) mat Ve, s))
       (\<lambda>(DN_x_mean, ve, kappa_bar, press).
     bindS (liftE (plastic_state grp mat ele_idx)) (\<lambda>PLAST_element.
     bindS (gauss_loop cs mat mat_id press ele grp [0..<ngauss grp]
              (replicate (n_dofs_elem grp) 0, PLAST_element)) (\<lambda>(T_internal, PLAST_element).
     bindS (mean_dilatation_stiffness ndim mat DN_x_mean ve kappa_bar ele grp) (\<lambda>_.
     returnS (T_internal, PLAST_element)))))))"

text \<open>
  What the body of the two loops writes for one node pair: the values are the row-major
  flattening of the outer product of the two columns of \<^verbatim>\<open>DN_x_mean\<close> times
  \<open>kappa_bar * ve\<close>; the row indices are the column of the node in \<^verbatim>\<open>MESH.dof_nodes\<close>
  repeated \<open>dim\<close> times, and so are the column indices. (\<^verbatim>\<open>MESH.dof_nodes\<close> is read as
  a two-dimensional \<^verbatim>\<open>ndarray\<close>, so that \<^verbatim>\<open>dof_nodes[:, j]\<close> is one-dimensional and
  \<^verbatim>\<open>np.tile\<close> of it with \<^verbatim>\<open>(1, dim)\<close> lays its copies side by side.)
\<close>

definition written_values :: "matrix \<Rightarrow> real \<Rightarrow> real \<Rightarrow> nat \<Rightarrow> nat \<Rightarrow> error + real list" where
  "written_values DN_x_mean kappa_bar ve anode bnode =
     bindE (column DN_x_mean anode) (\<lambda>DNa.
     bindE (column DN_x_mean bnode) (\<lambda>DNb.
     Inr (map (\<lambda>x. kappa_bar * ve * x) (concat (outer DNa DNb)))))"

definition written_dofs :: "nat \<Rightarrow> int list list \<Rightarrow> int list \<Rightarrow> nat \<Rightarrow> error + int list" where
  "written_dofs ndim dof_nodes nids node =
     bindE (item nids node) (\<lambda>nid.
     bindE (column_int dof_nodes (nid - 1)) (\<lambda>dofs.
     Inr (tile_flat dofs ndim)))"

text \<open>
  The block the specification describes for the pair of nodes with mean shape gradients
  \<open>DNa\<close>, \<open>DNb\<close> and degrees of freedom \<open>dofa\<close>, \<open>dofb\<close>: entry \<open>(i, j)\<close> of the
  outer product, times \<open>kappa_bar * ve\<close>, goes to row \<open>dofa ! i\<close> and column
  \<open>dofb ! j\<close> of the stiffness matrix. The triplets are listed row by row.
\<close>

definition outer_product_block ::
  "real \<Rightarrow> real \<Rightarrow> real list \<Rightarrow> real list \<Rightarrow> int list \<Rightarrow> int list \<Rightarrow> (int \<times> int \<times> real) list" where
  "outer_product_block kappa_bar ve DNa DNb dofa dofb =
     concat (map (\<lambda>i. map (\<lambda>j. (dofa ! i, dofb ! j, kappa_bar * ve * (DNa ! i * DNb ! j)))
                          [0..<length DNb]) [0..<length DNa])"

text \<open>The \<open>n\<close> triplets (row, column, value) that the buffers hold from slot \<open>c\<close> on.\<close>

definition triplets :: "GlobalK \<Rightarrow> nat \<Rightarrow> nat \<Rightarrow> (int \<times> int \<times> real) list" where
  "triplets gk c n =
     (case (indexi gk, indexj gk, stiffness gk) of
        (Some bi, Some bj, Some bs) \<Rightarrow> take n (drop c (zip bi (zip bj bs)))
      | _ \<Rightarrow> [])"

subsection \<open>Collaborators that record their calls, and a smallest element\<close>

text \<open>
  To observe what the function hands to \<^verbatim>\<open>ConstitutiveMatrix\<close> and
  \<^verbatim>\<open>GeometricMatrix\<close>, these two append their arguments to a list kept in the rest of
  the state. \<^verbatim>\<open>ComputeGradients\<close> stores the kinematics \<open>kin\<close>; the stress and the
  elasticity tensor at Gauss point \<open>g\<close> are \<open>sigma g\<close> and \<open>cten g\<close>.
\<close>

datatype call = ConstitutiveMatrix_call nat tensor4 real | GeometricMatrix_call matrix real

definition recording ::
  "Kinematics \<Rightarrow> (nat \<Rightarrow> matrix) \<Rightarrow> (nat \<Rightarrow> tensor4) \<Rightarrow>
     (unit, call list NLFEMDataBase_scheme) collaborators" where
  "recording kin sigma cten =
     \<lparr>ComputeGradients = (\<lambda>x X D s. (Inr (), s\<lparr>kinematics := kin\<rparr>)),
      CauchyTypeSelection = (\<lambda>P g m s. (Inr (sigma g, (), P), s)),
      ElasticityModulusSelection = (\<lambda>P pg g mid s. (Inr (cten g), s)),
      ConstitutiveMatrix = (\<lambda>grp ele g c JW s.
         (Inr (), NLFEMDataBase.more_update (\<lambda>l. l @ [ConstitutiveMatrix_call g c JW]) s)),
      GeometricMatrix = (\<lambda>grp ele D JW s.
         (Inr (), NLFEMDataBase.more_update (\<lambda>l. l @ [GeometricMatrix_call D JW]) s))\<rparr>"


text \<open>
  An element with one node, one degree of freedom and one Gauss point in one space
  dimension, with Jacobian 2 and weight 1; its material has bulk modulus 1. All numbers
  of the run are small integers, exact in floating point as well.
\<close>

definition one_point_group :: ElementGroup where
  "one_point_group =
     \<lparr>n_dofs_elem = 1, n_nodes_elem = 1, ngauss = 1,
      interpolation_element_DN_chi = [[[1]]],
      quadrature_element_w = [1], interpolation_quadrature_element_w = [1],
      global_plasticity_epbar = [[0]], global_plasticity_invCp = [[[[1]]]]\<rparr>"

definition one_point_kinematics :: Kinematics where
  "one_point_kinematics = \<lparr>Jx_chi = [2], DN_Dx = [[[1]]]\<rparr>"

definition unit_material :: material where
  "unit_material =
     \<lparr>isinstance_HyperElasticPlasticInPrincipal = True, GetName = ''HyperElasticPlastic'',
      value_dict = [MaterialKey_Kappa \<mapsto> 1]\<rparr>"

definition elastic_material :: material where
  "elastic_material =
     \<lparr>isinstance_HyperElasticPlasticInPrincipal = False, GetName = ''ISOElastic'',
      value_dict = [MaterialKey_E \<mapsto> 1]\<rparr>"

definition one_point_state :: "call list NLFEMDataBase_scheme" where
  "one_point_state =
     \<lparr>kinematics = \<lparr>Jx_chi = [], DN_Dx = []\<rparr>,
      global_k = \<lparr>indexi = Some [0, 0], indexj = Some [0, 0], counter = Some 0,
                  stiffness = Some [0, 0]\<rparr>,
      identity_tensor = IdentityTensor_init 1,
      Mesh_dof_nodes = [[5]],
      Material_Mat = [0 \<mapsto> unit_material, 1 \<mapsto> elastic_material],
      \<dots> = []\<rparr>"

definition one_point_element :: ElementBaseClass where
  "one_point_element = \<lparr>node_ids = [1]\<rparr>"

text \<open>
  An element in two space dimensions with one node, two degrees of freedom (numbered 4
  and 5) and one Gauss point with Jacobian 1 and weight 1; the mean shape gradient of the
  node is \<open>(2, 3)\<close>, the stress is the identity and the elasticity tensor zero.
\<close>

definition plane_group :: ElementGroup where
  "plane_group =
     \<lparr>n_dofs_elem = 2, n_nodes_elem = 1, ngauss = 1,
      interpolation_element_DN_chi = [[[2]], [[3]]],
      quadrature_element_w = [1], interpolation_quadrature_element_w = [1],
      global_plasticity_epbar = [[0]], global_plasticity_invCp = [[[[1]]]]\<rparr>"

definition plane_kinematics :: Kinematics where
  "plane_kinematics = \<lparr>Jx_chi = [1], DN_Dx = [[[2]], [[3]]]\<rparr>"

definition plane_state :: "call list NLFEMDataBase_scheme" where
  "plane_state =
     \<lparr>kinematics = \<lparr>Jx_chi = [], DN_Dx = []\<rparr>,
      global_k = \<lparr>indexi = Some [0, 0, 0, 0], indexj = Some [0, 0, 0, 0], counter = Some 0,
                  stiffness = Some [0, 0, 0, 0]\<rparr>,
      identity_tensor = IdentityTensor_init 2,
      Mesh_dof_nodes = [[4], [5]],
      Material_Mat = [0 \<mapsto> unit_material],
      \<dots> = []\<rparr>"

definition plane_collaborators :: "(unit, call list NLFEMDataBase_scheme) collaborators" where
  "plane_collaborators =
     recording plane_kinematics (\<lambda>g. [[1, 0], [0, 1]])
       (\<lambda>g. replicate 2 (replicate 2 (replicate 2 (replicate 2 0))))"

text \<open>
  The internal force the specification describes: at each degree of freedom (node \<open>a\<close>,
  direction \<open>i\<close>) the sum over the Gauss points of \<open>JW\<close> times the entry of (shape
  gradient transposed times Cauchy stress).
\<close>

definition gauss_weighted_force ::
  "nat \<Rightarrow> nat \<Rightarrow> real list \<Rightarrow> matrix list \<Rightarrow> matrix list \<Rightarrow> real list" where
  "gauss_weighted_force ndim nn JWs sigmas DNs =
     concat (map (\<lambda>a. map (\<lambda>i.
       \<Sum>g\<leftarrow>[0..<length JWs]. JWs ! g * (\<Sum>k\<leftarrow>[0..<ndim]. DNs ! g ! k ! a * sigmas ! g ! k ! i))
       [0..<ndim]) [0..<nn])"

text \<open>
  What the theorems ask of the collaborators where the cursor is concerned: none of them
  assigns \<^verbatim>\<open>fem_db.global_k.counter\<close>.
\<close>

definition keeps_cursor :: "('a, 'z NLFEMDataBase_scheme) prog \<Rightarrow> bool" where
  "keeps_cursor m \<longleftrightarrow> (\<forall>s. counter (global_k (snd (m s))) = counter (global_k s))"

definition cursor_untouched :: "('g, 'z NLFEMDataBase_scheme) collaborators \<Rightarrow> bool" where
  "cursor_untouched cs \<longleftrightarrow>
     (\<forall>x X D. keeps_cursor (ComputeGradients cs x X D)) \<and>
     (\<forall>P g m. keeps_cursor (CauchyTypeSelection cs P g m)) \<and>
     (\<forall>P pg g mid. keeps_cursor (ElasticityModulusSelection cs P pg g mid)) \<and>
     (\<forall>grp ele g c JW. keeps_cursor (ConstitutiveMatrix cs grp ele g c JW)) \<and>
     (\<forall>grp ele D JW. keeps_cursor (GeometricMatrix cs grp ele D JW))"

subsection \<open>The assembly pass\<close>

text \<open>
  Modelled from the spec: the driver of the pass
  (\<^verbatim>\<open>global_assembly/ResidualAndStiffnessAssembly.py\<close>) is not among the sources. By
  the specification the cursor is reset to zero at the start of a pass and the element
  routine is invoked for each element in turn. The scatter of the element force into the
  residual is left out.
\<close>

record element_task =
  task_xlocal :: matrix
  task_Xlocal :: matrix
  task_mat_id :: nat
  task_Ve :: real
  task_ele :: ElementBaseClass
  task_grp :: ElementGroup
  task_ele_idx :: nat

fun assemble_elements ::
  "('g, 'z NLFEMDataBase_scheme) collaborators \<Rightarrow> nat \<Rightarrow> element_task list \<Rightarrow>
     (unit, 'z NLFEMDataBase_scheme) prog" where
  "assemble_elements cs ndim [] = returnS ()"
| "assemble_elements cs ndim (t # ts) =
     bindS (ElementForceAndStiffness cs ndim (task_xlocal t) (task_Xlocal t) (task_mat_id t)
              (task_Ve t) (task_ele t) (task_grp t) (task_ele_idx t))
       (\<lambda>_. assemble_elements cs ndim ts)"

definition assembly_pass ::
  "('g, 'z NLFEMDataBase_scheme) collaborators \<Rightarrow> nat \<Rightarrow> element_task list \<Rightarrow>
     (unit, 'z NLFEMDataBase_scheme) prog" where
  "assembly_pass cs ndim tasks s =
     assemble_elements cs ndim tasks (s\<lparr>global_k := (global_k s)\<lparr>counter := Some 0\<rparr>\<rparr>)"

text \<open>The cursor the specification expects after a pass.\<close>

definition expected_cursor :: "nat \<Rightarrow> element_task list \<Rightarrow> nat" where
  "expected_cursor ndim tasks =
     (\<Sum>t\<leftarrow>tasks. (n_dofs_elem (task_grp t)) ^ 2 + (n_nodes_elem (task_grp t)) ^ 2 * ndim ^ 2)"

text \<open>
  Modelled from the spec: \<^verbatim>\<open>ConstitutiveMatrix\<close> and \<^verbatim>\<open>GeometricMatrix\<close> are not among
  the sources. By the specification their triplets go to the shared buffer at the
  advancing cursor and count (dofs-per-element) squared per element; here the element has
  one Gauss point, \<^verbatim>\<open>ConstitutiveMatrix\<close> claims that many slots by moving the cursor,
  and \<^verbatim>\<open>GeometricMatrix\<close> claims none.
\<close>

definition claiming ::
  "Kinematics \<Rightarrow> (nat \<Rightarrow> matrix) \<Rightarrow> (nat \<Rightarrow> tensor4) \<Rightarrow>
     (unit, call list NLFEMDataBase_scheme) collaborators" where
  "claiming kin sigma cten =
     (recording kin sigma cten)
       \<lparr>ConstitutiveMatrix := (\<lambda>grp ele g c JW s.
          (Inr (), s\<lparr>global_k := (global_k s)
             \<lparr>counter := map_option (\<lambda>k. k + (n_dofs_elem grp) ^ 2) (counter (global_k s))\<rparr>\<rparr>))\<rparr>"

definition one_point_task :: element_task where
  "one_point_task =
     \<lparr>task_xlocal = [[0]], task_Xlocal = [[0]], task_mat_id = 0, task_Ve = 2,
      task_ele = one_point_element, task_grp = one_point_group, task_ele_idx = 0\<rparr>"

section \<open>Properties\<close>

text \<open>
  C6: \<^verbatim>\<open>ChooseIncrementalAlgorithm\<close> dispatches by the two flags: arc-length magnitude
  zero and line search off runs plain Newton-Raphson, arc-length magnitude zero and line
  search on runs line-search Newton-Raphson, a nonzero arc-length magnitude runs arc-length
  Newton-Raphson; exactly one of the three runs per call.
\<close>

theorem ChooseIncrementalAlgorithm_dispatch:
  "(arcln CON = 0 \<and> \<not> searc CON \<longrightarrow>
      ChooseIncrementalAlgorithm run CON s = run NewtonRaphsonAlgorithm s) \<and>
   (arcln CON = 0 \<and> searc CON \<longrightarrow>
      ChooseIncrementalAlgorithm run CON s = run LineSearchNewtonRaphsonAlgorithm s) \<and>
   (arcln CON \<noteq> 0 \<longrightarrow>
      ChooseIncrementalAlgorithm run CON s = run ArcLengthNewtonRaphsonAlgorithm s) \<and>
   (\<exists>alg. ChooseIncrementalAlgorithm record_run CON [] = Inr [alg])"
  by (simp add: ChooseIncrementalAlgorithm_def record_run_def)

theorem ChooseIncrementalAlgorithm_dispatch_witness:
  "ChooseIncrementalAlgorithm record_run \<lparr>arcln = 0, searc = False\<rparr> []
     = Inr [NewtonRaphsonAlgorithm] \<and>
   ChooseIncrementalAlgorithm record_run \<lparr>arcln = 0, searc = True\<rparr> []
     = Inr [LineSearchNewtonRaphsonAlgorithm] \<and>
   ChooseIncrementalAlgorithm record_run \<lparr>arcln = 1 / 2, searc = False\<rparr> []
     = Inr [ArcLengthNewtonRaphsonAlgorithm]"
  using ChooseIncrementalAlgorithm_dispatch [of "\<lparr>arcln = 0, searc = False\<rparr>" record_run "[]"]
        ChooseIncrementalAlgorithm_dispatch [of "\<lparr>arcln = 0, searc = True\<rparr>" record_run "[]"]
        ChooseIncrementalAlgorithm_dispatch [of "\<lparr>arcln = 1 / 2, searc = False\<rparr>" record_run "[]"]
  by (simp add: record_run_def)

text \<open>
  C9: \<^verbatim>\<open>Beam188.ElementStiffness\<close> never produces a stiffness matrix: whatever the
  element holds, the call raises, so it returns neither a matrix nor even \<^verbatim>\<open>None\<close>.
\<close>

theorem Beam188_ElementStiffness_no_matrix:
  "(\<exists>e. ElementStiffness self = Inl e) \<and> ElementStiffness self \<noteq> Inr (Some K)"
proof -
  have "\<exists>e. ElementStiffness self = Inl e"
    unfolding ElementStiffness_def Let_def
    by (simp add: BeamCalculator_GetEquivalentCoff_def bindE_def split: sum.splits)
  then show ?thesis by auto
qed

subsection \<open>The domain object\<close>

lemma bindE_Inr: "bindE m f = Inr y \<longleftrightarrow> (\<exists>x. m = Inr x \<and> f x = Inr y)"
  by (cases m) (auto simp: bindE_def)

lemma setattr_allocate:
  assumes "setattr self name (allocate obj w) = Inr w'" and "\<And>d. obj \<noteq> NLDomain_object d"
  shows "\<exists>d. heap w self = Some (NLDomain_object d) \<and> self \<noteq> next_addr w \<and>
           w' = w\<lparr>heap := (heap w)(next_addr w \<mapsto> obj,
                                     self \<mapsto> NLDomain_object (d(name \<mapsto> next_addr w))),
                  next_addr := Suc (next_addr w)\<rparr>"
  using assms
  by (auto simp: setattr_def allocate_def split: option.splits pyobject.splits if_splits)

lemma setattr_frame:
  assumes "setattr self name (a, w) = Inr w'"
  shows "NLDomain_instance w' = NLDomain_instance w \<and> next_addr w' = next_addr w"
  using assms by (auto simp: setattr_def split: option.splits pyobject.splits)

lemma ext_step:
  assumes "well_behaved ext" "bindE (ext cls w) (setattr self name) = Inr w'"
  shows "NLDomain_instance w' = NLDomain_instance w \<and> next_addr w \<le> next_addr w'"
proof -
  from assms(2) obtain a w1 where e: "ext cls w = Inr (a, w1)"
    and s: "setattr self name (a, w1) = Inr w'"
    by (auto simp: bindE_Inr)
  from assms(1) e have "NLDomain_instance w1 = NLDomain_instance w \<and> next_addr w \<le> next_addr w1"
    unfolding well_behaved_def by blast
  with setattr_frame [OF s] show ?thesis by simp
qed

lemma own_step:
  assumes "setattr self name (allocate obj w) = Inr w'"
  shows "NLDomain_instance w' = NLDomain_instance w \<and> next_addr w \<le> next_addr w'"
  using setattr_frame [of self name "next_addr w" _ w'] assms by (auto simp: allocate_def)

lemma NLDomain_init_end:
  assumes wb: "well_behaved ext" and run: "NLDomain_init ext self w = Inr w'"
  shows "NLDomain_instance w' = NLDomain_instance w \<and>
         (\<exists>g. getattr w' self ''global_k'' = Some g \<and> next_addr w \<le> g \<and>
               heap w' g = Some (GlobalK_object GlobalK_init)) \<and>
         (\<exists>x. getattr w' self ''aux_variant'' = Some x \<and> next_addr w \<le> x \<and>
               heap w' x = Some (AuxVariant_object AuxVariant_init))"
proof -
  from run obtain w1 w2 w3 w4 w5 w6 where
    s1: "bindE (ext ''NLFEMDataBase'' w) (setattr self ''fem_db'') = Inr w1" and
    s2: "(case GlobalInfor_Dimension w1 of None \<Rightarrow> Inl KeyError
          | Some dimension \<Rightarrow> setattr self ''identity_tensor''
              (allocate (IdentityTensor_object (IdentityTensor_init dimension)) w1)) = Inr w2" and
    s3: "bindE (ext ''RightHandItem'' w2) (setattr self ''right_hand_item'') = Inr w3" and
    s4: "bindE (ext ''Kinematics'' w3) (setattr self ''kinematics'') = Inr w4" and
    s5: "bindE (ext ''Plasticity'' w4) (setattr self ''plastics'') = Inr w5" and
    s6: "setattr self ''aux_variant'' (allocate (AuxVariant_object AuxVariant_init) w5) = Inr w6" and
    s7: "setattr self ''global_k'' (allocate (GlobalK_object GlobalK_init) w6) = Inr w'"
    unfolding NLDomain_init_def bindE_Inr by blast
  from s2 obtain dimension where
    s2': "setattr self ''identity_tensor''
            (allocate (IdentityTensor_object (IdentityTensor_init dimension)) w1) = Inr w2"
    by (auto split: option.splits)
  note f1 = ext_step [OF wb s1] and f2 = own_step [OF s2'] and f3 = ext_step [OF wb s3]
    and f4 = ext_step [OF wb s4] and f5 = ext_step [OF wb s5]
  have inst5: "NLDomain_instance w5 = NLDomain_instance w" and n5: "next_addr w \<le> next_addr w5"
    using f1 f2 f3 f4 f5 by auto
  from setattr_allocate [OF s6] obtain d5 where
    h5: "heap w5 self = Some (NLDomain_object d5)" and ne5: "self \<noteq> next_addr w5" and
    w6: "w6 = w5\<lparr>heap := (heap w5)(next_addr w5 \<mapsto> AuxVariant_object AuxVariant_init,
                     self \<mapsto> NLDomain_object (d5(''aux_variant'' \<mapsto> next_addr w5))),
                  next_addr := Suc (next_addr w5)\<rparr>"
    by blast
  from setattr_allocate [OF s7] obtain d6 where
    h6: "heap w6 self = Some (NLDomain_object d6)" and ne6: "self \<noteq> next_addr w6" and
    w': "w' = w6\<lparr>heap := (heap w6)(next_addr w6 \<mapsto> GlobalK_object GlobalK_init,
                     self \<mapsto> NLDomain_object (d6(''global_k'' \<mapsto> next_addr w6))),
                  next_addr := Suc (next_addr w6)\<rparr>"
    by blast
  have d6: "d6 = d5(''aux_variant'' \<mapsto> next_addr w5)"
    and n6: "next_addr w6 = Suc (next_addr w5)"
    using h6 w6 by auto
  have "NLDomain_instance w' = NLDomain_instance w"
    using inst5 w6 w' by simp
  moreover have "getattr w' self ''global_k'' = Some (next_addr w6) \<and>
      next_addr w \<le> next_addr w6 \<and>
      heap w' (next_addr w6) = Some (GlobalK_object GlobalK_init)"
    using w' ne6 n5 n6 by (simp add: getattr_def)
  moreover have "getattr w' self ''aux_variant'' = Some (next_addr w5) \<and>
      next_addr w \<le> next_addr w5 \<and>
      heap w' (next_addr w5) = Some (AuxVariant_object AuxVariant_init)"
    using w' w6 d6 ne5 ne6 n5 n6 by (simp add: getattr_def)
  ultimately show ?thesis by blast
qed

lemma NLDomain_new_frame:
  assumes "NLDomain_new w = (a, w')"
  shows "NLDomain_instance w' = Some a \<and> next_addr w \<le> next_addr w' \<and>
         (\<forall>b. NLDomain_instance w = Some b \<longrightarrow> a = b \<and> w' = w)"
  using assms by (auto simp: NLDomain_new_def allocate_def split: option.splits)

lemma NLDomain_call_end:
  assumes wb: "well_behaved ext" and run: "NLDomain_call ext w = Inr (a, w')"
  shows "NLDomain_instance w' = Some a \<and> (\<forall>b. NLDomain_instance w = Some b \<longrightarrow> a = b) \<and>
         (\<exists>g. getattr w' a ''global_k'' = Some g \<and> next_addr w \<le> g \<and>
               heap w' g = Some (GlobalK_object GlobalK_init)) \<and>
         (\<exists>x. getattr w' a ''aux_variant'' = Some x \<and> next_addr w \<le> x \<and>
               heap w' x = Some (AuxVariant_object AuxVariant_init))"
proof -
  obtain wn where n: "NLDomain_new w = (a, wn)" and i: "NLDomain_init ext a wn = Inr w'"
    using run by (auto simp: NLDomain_call_def bindE_Inr split: prod.splits)
  from NLDomain_new_frame [OF n] NLDomain_init_end [OF wb i]
  show ?thesis by (metis order_trans)
qed

lemma well_behaved_plain_constructor: "well_behaved plain_constructor"
  by (auto simp: well_behaved_def plain_constructor_def allocate_def)

lemmas NLDomain_eval = NLDomain_call_def NLDomain_new_def NLDomain_init_def
  plain_constructor_def initial_world_def allocate_def bindE_def setattr_def Let_def
  getattr_def global_k_of_def set_counter_def GlobalK_init_def AuxVariant_init_def

lemma built_once_eq:
  "built_once = Inr (0, \<lparr>NLDomain_instance = Some 0, GlobalInfor_Dimension = Some 2,
     heap = [1 \<mapsto> Foreign_object ''NLFEMDataBase'',
             2 \<mapsto> IdentityTensor_object (IdentityTensor_init 2),
             3 \<mapsto> Foreign_object ''RightHandItem'',
             4 \<mapsto> Foreign_object ''Kinematics'',
             5 \<mapsto> Foreign_object ''Plasticity'',
             6 \<mapsto> AuxVariant_object AuxVariant_init,
             7 \<mapsto> GlobalK_object GlobalK_init,
             0 \<mapsto> NLDomain_object [''fem_db'' \<mapsto> 1, ''identity_tensor'' \<mapsto> 2,
                  ''right_hand_item'' \<mapsto> 3, ''kinematics'' \<mapsto> 4, ''plastics'' \<mapsto> 5,
                  ''aux_variant'' \<mapsto> 6, ''global_k'' \<mapsto> 7]],
     next_addr = 8\<rparr>)"
  unfolding built_once_def
  by (simp add: NLDomain_eval fun_upd_twist eval_nat_numeral)

text \<open>
  Two calls of \<^verbatim>\<open>NLDomain()\<close>, whatever happened in between: the second returns the
  instance of the first, and \<^verbatim>\<open>__init__\<close> has run again on it. For the two
  attributes whose classes are defined in \<^verbatim>\<open>NLDomain.py\<close> this means objects that
  did not exist before the call, with all fields \<^verbatim>\<open>None\<close>.
\<close>

lemma NLDomain_call_twice:
  assumes "well_behaved ext"
    and "NLDomain_call ext w = Inr (a1, w1)"
    and "NLDomain_instance w1' = NLDomain_instance w1"
    and "NLDomain_call ext w1' = Inr (a2, w2)"
  shows "a2 = a1 \<and>
         (\<exists>g. getattr w2 a2 ''global_k'' = Some g \<and> next_addr w1' \<le> g \<and>
               heap w2 g = Some (GlobalK_object GlobalK_init)) \<and>
         (\<exists>x. getattr w2 a2 ''aux_variant'' = Some x \<and> next_addr w1' \<le> x \<and>
               heap w2 x = Some (AuxVariant_object AuxVariant_init))"
  using NLDomain_call_end [OF assms(1) assms(2)] NLDomain_call_end [OF assms(1) assms(4)] assms(3)
  by auto

text \<open>
  C8, which the class misses: the instance is cached, but \<^verbatim>\<open>__init__\<close> has no guard.
  After the domain was built and the cursor of its \<^verbatim>\<open>global_k\<close> set to zero, a second
  \<^verbatim>\<open>NLDomain()\<close> returns the same instance, and its \<^verbatim>\<open>global_k\<close> is another object
  with the cursor back at \<^verbatim>\<open>None\<close>: the sub-objects are not left unchanged.
\<close>

theorem NLDomain_second_construction_resets_global_k:
  "\<not> isl built_once \<and> \<not> isl built_twice \<and>
   fst (projr built_twice) = fst (projr built_once) \<and>
   global_k_of cursor_reset (fst (projr built_once)) = Some (GlobalK_init\<lparr>counter := Some 0\<rparr>) \<and>
   global_k_of (snd (projr built_twice)) (fst (projr built_twice)) = Some GlobalK_init \<and>
   getattr (snd (projr built_twice)) (fst (projr built_twice)) ''global_k''
     \<noteq> getattr cursor_reset (fst (projr built_once)) ''global_k''"
  unfolding built_twice_def cursor_reset_def built_once_eq
  by (simp add: NLDomain_eval)

subsection \<open>The element routine\<close>

lemma bindS_Inr:
  "bindS m f s = (Inr y, s') \<longleftrightarrow> (\<exists>x s1. m s = (Inr x, s1) \<and> f x s1 = (Inr y, s'))"
  by (cases "m s") (auto simp: bindS_def split: sum.splits)

lemmas np_eval = item_def column_def column_int_def last_axis3_def last_axis4_def
  zeros2_def scale2_def divide2_def scale4_def np_add2_def same_shape4_def np_add4_def np_sub4_def
  ncols_def transpose2_def matmul_def outer_def tile_flat_def np_iadd1_def slice_assign_def
  bindE_def dict_get_def need_def write_slice_def

lemmas efs_eval = ElementForceAndStiffness_def bindS_def returnS_def liftE_def
  mean_dilatation_def mean_dilatation_pressure_def plastic_state_def gauss_point_def
  add_pressure_to_stress_def add_pressure_to_elasticity_def DN_sigma_DN_of_def
  mean_dilatation_stiffness_def node_pair_def node_pairs_def IdentityTensor_init_def eye_def

lemmas one_point_eval = recording_def claiming_def one_point_group_def one_point_kinematics_def
  unit_material_def elastic_material_def one_point_state_def one_point_element_def
  one_point_task_def

subsection \<open>The shared cursor\<close>

lemma keeps_cursor_returnS: "keeps_cursor (returnS x)"
  by (simp add: keeps_cursor_def returnS_def)

lemma keeps_cursor_liftE: "keeps_cursor (liftE r)"
  by (simp add: keeps_cursor_def liftE_def)

lemma keeps_cursor_read: "keeps_cursor (\<lambda>s. (f s, s))"
  by (simp add: keeps_cursor_def)

lemma keeps_cursor_bindS:
  assumes "keeps_cursor m" and "\<And>x. keeps_cursor (f x)"
  shows "keeps_cursor (bindS m f)"
  unfolding keeps_cursor_def
proof
  fix s
  obtain r s1 where m: "m s = (r, s1)" by (cases "m s")
  with assms(1) have c1: "counter (global_k s1) = counter (global_k s)"
    unfolding keeps_cursor_def by (metis snd_conv)
  show "counter (global_k (snd (bindS m f s))) = counter (global_k s)"
  proof (cases r)
    case (Inl e)
    with m c1 show ?thesis by (simp add: bindS_def)
  next
    case (Inr x)
    with m have "bindS m f s = f x s1" by (simp add: bindS_def)
    with assms(2) [of x] c1 show ?thesis unfolding keeps_cursor_def by simp
  qed
qed

lemma keeps_cursor_gauss_point:
  assumes "cursor_untouched cs"
  shows "keeps_cursor (gauss_point cs mat mat_id press ele grp igauss acc)"
  using assms unfolding gauss_point_def cursor_untouched_def
  by (intro keeps_cursor_bindS keeps_cursor_returnS keeps_cursor_liftE keeps_cursor_read)
     (auto simp: split_def intro!: keeps_cursor_bindS keeps_cursor_returnS keeps_cursor_liftE keeps_cursor_read)

lemma keeps_cursor_gauss_loop:
  assumes "cursor_untouched cs"
  shows "keeps_cursor (gauss_loop cs mat mat_id press ele grp gs acc)"
proof (induction gs arbitrary: acc)
  case Nil
  show ?case by (simp add: keeps_cursor_returnS)
next
  case (Cons g gs)
  show ?case
    by (simp add: keeps_cursor_bindS keeps_cursor_gauss_point [OF assms] Cons.IH)
qed

lemma keeps_cursor_mean_dilatation_stiffness:
  "keeps_cursor (mean_dilatation_stiffness ndim mat DN_x_mean ve kappa_bar ele grp)"
  by (auto simp: keeps_cursor_def mean_dilatation_stiffness_def split: sum.splits prod.splits)

lemma keeps_cursor_ElementForceAndStiffness:
  assumes "cursor_untouched cs"
  shows "keeps_cursor (ElementForceAndStiffness cs ndim xlocal Xlocal mat_id Ve ele grp ele_idx)"
proof -
  have cg: "keeps_cursor (ComputeGradients cs xlocal Xlocal (interpolation_element_DN_chi grp))"
    using assms by (simp add: cursor_untouched_def)
  note parts = keeps_cursor_returnS keeps_cursor_liftE keeps_cursor_read
    keeps_cursor_gauss_loop [OF assms] keeps_cursor_mean_dilatation_stiffness
  show ?thesis
    unfolding ElementForceAndStiffness_def split_def
    by (intro keeps_cursor_bindS cg parts)
qed

lemma write_slice_Inr:
  "write_slice buf cnt n vals = Inr b' \<longleftrightarrow>
     (\<exists>c b. cnt = Some c \<and> buf = Some b \<and> slice_assign b c n vals = Inr b')"
  by (auto simp: write_slice_def need_def bindE_def split: option.splits)

lemma write_slice_Some: "write_slice (Some b) (Some c) n vals = slice_assign b c n vals"
  by (simp add: write_slice_def need_def bindE_def)

lemma bindS_liftE_Inr:
  "bindS (liftE r) f s = (Inr y, s') \<longleftrightarrow> (\<exists>x. r = Inr x \<and> f x s = (Inr y, s'))"
  by (cases r) (auto simp: bindS_def liftE_def)

lemma write_step_Inr:
  "bindS (\<lambda>st. case write_slice (buf st) (fst st) n vals of
                  Inl e \<Rightarrow> (Inl e, st)
                | Inr b \<Rightarrow> (Inr (), (fst st, upd b (snd st)))) f st0 = (Inr y, s') \<longleftrightarrow>
   (\<exists>c b b'. fst st0 = Some c \<and> buf st0 = Some b \<and> slice_assign b c n vals = Inr b' \<and>
      f () (fst st0, upd b' (snd st0)) = (Inr y, s'))"
proof (cases "write_slice (buf st0) (fst st0) n vals")
  case (Inl e)
  then show ?thesis by (auto simp: bindS_def write_slice_Some)
next
  case (Inr b')
  then obtain c b where cb: "fst st0 = Some c" "buf st0 = Some b"
    "slice_assign b c n vals = Inr b'"
    by (auto simp: write_slice_Inr)
  have "bindS (\<lambda>st. case write_slice (buf st) (fst st) n vals of
                  Inl e \<Rightarrow> (Inl e, st)
                | Inr b \<Rightarrow> (Inr (), (fst st, upd b (snd st)))) f st0 =
        f () (fst st0, upd b' (snd st0))"
    unfolding bindS_def Inr by simp
  with cb show ?thesis by auto
qed

lemma node_pair_Inr:
  assumes run: "node_pair ndim DNm dof nids kb ve (b, a) (cnt, gk) = (Inr (), (cnt', gk'))"
  shows "\<exists>c bi bj bs DNa DNb ida dofa idb dofb bi' bj' bs'.
    cnt = Some c \<and> indexi gk = Some bi \<and> indexj gk = Some bj \<and> stiffness gk = Some bs \<and>
    column DNm a = Inr DNa \<and> column DNm b = Inr DNb \<and>
    item nids a = Inr ida \<and> column_int dof (ida - 1) = Inr dofa \<and>
    item nids b = Inr idb \<and> column_int dof (idb - 1) = Inr dofb \<and>
    slice_assign bi c (ndim ^ 2) (tile_flat dofa ndim) = Inr bi' \<and>
    slice_assign bj c (ndim ^ 2) (tile_flat dofb ndim) = Inr bj' \<and>
    slice_assign bs c (ndim ^ 2) (map (\<lambda>x. kb * ve * x) (concat (outer DNa DNb))) = Inr bs' \<and>
    cnt' = Some (c + ndim ^ 2) \<and>
    gk' = gk\<lparr>indexi := Some bi', indexj := Some bj', stiffness := Some bs'\<rparr>"
  using run unfolding node_pair_def Let_def fst_conv snd_conv bindS_liftE_Inr
  apply (elim exE conjE)
  apply (simp only: write_step_Inr [where buf = "\<lambda>st. indexi (snd st)" and upd = "\<lambda>b g. g\<lparr>indexi := Some b\<rparr>"]
      write_step_Inr [where buf = "\<lambda>st. indexj (snd st)" and upd = "\<lambda>b g. g\<lparr>indexj := Some b\<rparr>"]
      write_step_Inr [where buf = "\<lambda>st. stiffness (snd st)" and upd = "\<lambda>b g. g\<lparr>stiffness := Some b\<rparr>"])
  apply (elim exE conjE)
  apply (simp)
  done

lemma node_pair_counter:
  assumes "node_pair ndim DNm dof nids kb ve ba (cnt, gk) = (Inr (), (cnt', gk'))"
  shows "\<exists>c. cnt = Some c \<and> cnt' = Some (c + ndim ^ 2) \<and> counter gk' = counter gk"
proof -
  obtain b a where "ba = (b, a)" by (cases ba)
  with node_pair_Inr [of ndim DNm dof nids kb ve b a cnt gk cnt' gk'] assms
  show ?thesis by auto
qed

lemma node_pair_loop_counter:
  assumes "node_pair_loop ndim DNm dof nids kb ve pairs (Some c, gk) = (Inr (), (cnt', gk'))"
  shows "cnt' = Some (c + length pairs * ndim ^ 2) \<and> counter gk' = counter gk"
  using assms
proof (induction pairs arbitrary: c gk)
  case Nil
  then show ?case by (simp add: returnS_def)
next
  case (Cons ba pairs)
  from Cons.prems obtain c1 gk1 where
    1: "node_pair ndim DNm dof nids kb ve ba (Some c, gk) = (Inr (), (c1, gk1))" and
    2: "node_pair_loop ndim DNm dof nids kb ve pairs (c1, gk1) = (Inr (), (cnt', gk'))"
    by (auto simp: bindS_Inr)
  from node_pair_counter [OF 1]
  have c1: "c1 = Some (c + ndim ^ 2)" and k1: "counter gk1 = counter gk" by auto
  from Cons.IH [OF 2 [unfolded c1]] k1 show ?case by (simp add: algebra_simps)
qed

text \<open>
  C10, as the source has it: the code of \<^verbatim>\<open>ElementForceAndStiffness\<close> itself never
  assigns the shared cursor \<^verbatim>\<open>fem_db.global_k.counter\<close>. The block of the mean
  dilatation term leaves the cursor of any state as it finds it, whether it returns or
  raises; the loop over the node pairs advances its local copy by \<open>dim\<^sup>2\<close> per pair
  and the object keeps the old value; and when the functions called in other modules do
  not assign the cursor, a call that returns normally leaves it unchanged.
\<close>

theorem shared_cursor_unchanged:
  assumes "cursor_untouched cs"
    and "ElementForceAndStiffness cs ndim xlocal Xlocal mat_id Ve ele grp ele_idx s = (Inr res, s')"
    and "node_pair_loop ndim DNm dof nids kb ve pairs (Some c, gk) = (Inr (), (cnt', gk'))"
  shows "counter (global_k s') = counter (global_k s) \<and>
         cnt' = Some (c + length pairs * ndim ^ 2) \<and> counter gk' = counter gk \<and>
         counter (global_k (snd (mean_dilatation_stiffness ndim mat DN_x_mean ve kappa_bar
                                    ele grp s0))) = counter (global_k s0)"
proof -
  from keeps_cursor_ElementForceAndStiffness
         [OF assms(1), of ndim xlocal Xlocal mat_id Ve ele grp ele_idx] assms(2)
  have "counter (global_k s') = counter (global_k s)"
    unfolding keeps_cursor_def by (metis snd_conv)
  moreover from keeps_cursor_mean_dilatation_stiffness
  have "counter (global_k (snd (mean_dilatation_stiffness ndim mat DN_x_mean ve kappa_bar
                                  ele grp s0))) = counter (global_k s0)"
    unfolding keeps_cursor_def by blast
  ultimately show ?thesis using node_pair_loop_counter [OF assms(3)] by simp
qed

text \<open>
  C10 as stated fails when \<^verbatim>\<open>ConstitutiveMatrix\<close> claims its slots by moving the
  cursor, as the specification has it: one call on the one-point element returns and the
  shared cursor has gone from 0 to 1.
\<close>

theorem single_call_moves_cursor:
  "fst (ElementForceAndStiffness (claiming one_point_kinematics (\<lambda>g. [[3]]) (\<lambda>g. [[[[7]]]]))
          1 [[0]] [[0]] 0 2 one_point_element one_point_group 0 one_point_state) =
     Inr ([3], \<lparr>epbar = [0], invCp = [[[1]]]\<rparr>) \<and>
   counter (global_k one_point_state) = Some 0 \<and>
   counter (global_k (snd (ElementForceAndStiffness
          (claiming one_point_kinematics (\<lambda>g. [[3]]) (\<lambda>g. [[[[7]]]]))
          1 [[0]] [[0]] 0 2 one_point_element one_point_group 0 one_point_state))) = Some 1"
  by (simp add: efs_eval np_eval one_point_eval Let_def)

lemma cursor_untouched_recording: "cursor_untouched (recording kin sigma cten)"
  by (simp add: cursor_untouched_def keeps_cursor_def recording_def)

lemma one_point_run:
  "ElementForceAndStiffness (recording one_point_kinematics (\<lambda>g. [[3]]) (\<lambda>g. [[[[7]]]]))
     1 [[0]] [[0]] 0 2 one_point_element one_point_group 0 one_point_state =
   (Inr ([3], \<lparr>epbar = [0], invCp = [[[1]]]\<rparr>),
    NLFEMDataBase.more_update
      (\<lambda>_. [ConstitutiveMatrix_call 0 [[[[7]]]] 2, GeometricMatrix_call [[3]] 2])
      (one_point_state
         \<lparr>kinematics := one_point_kinematics,
          global_k := \<lparr>indexi = Some [5, 0], indexj = Some [5, 0], counter = Some 0,
                       stiffness = Some [2, 0]\<rparr>\<rparr>))"
  by (simp add: efs_eval np_eval one_point_eval Let_def)

lemma one_point_pairs:
  "node_pair_loop 1 [[1]] [[5]] [1] 1 2 (node_pairs 1)
     (Some 0, \<lparr>indexi = Some [0, 0], indexj = Some [0, 0], counter = Some 0,
                  stiffness = Some [0, 0]\<rparr>) =
   (Inr (), (Some 1, \<lparr>indexi = Some [5, 0], indexj = Some [5, 0], counter = Some 0,
                    stiffness = Some [2, 0]\<rparr>))"
  by (simp add: node_pair_def node_pairs_def np_eval bindS_def liftE_def returnS_def Let_def)

text \<open>
  C5: with a material that is not a \<^verbatim>\<open>HyperElasticPlasticInPrincipal\<close> the call never
  returns a result, and the state at the raise is the one \<^verbatim>\<open>ComputeGradients\<close> left:
  no triplet and no cursor has been written by the function. When \<^verbatim>\<open>ComputeGradients\<close>
  itself returns, the exception is \<^verbatim>\<open>NoImplSuchMaterial\<close> with the material's name.
\<close>

theorem unsupported_material_raises:
  assumes "Material_Mat (snd (ComputeGradients cs xlocal Xlocal (interpolation_element_DN_chi grp) s))
             mat_id = Some mat"
    and "\<not> isinstance_HyperElasticPlasticInPrincipal mat"
  shows "(\<exists>e. fst (ElementForceAndStiffness cs ndim xlocal Xlocal mat_id Ve ele grp ele_idx s) = Inl e) \<and>
         snd (ElementForceAndStiffness cs ndim xlocal Xlocal mat_id Ve ele grp ele_idx s) =
           snd (ComputeGradients cs xlocal Xlocal (interpolation_element_DN_chi grp) s) \<and>
         (fst (ComputeGradients cs xlocal Xlocal (interpolation_element_DN_chi grp) s) = Inr () \<longrightarrow>
          fst (ElementForceAndStiffness cs ndim xlocal Xlocal mat_id Ve ele grp ele_idx s) =
            Inl (NoImplSuchMaterial (GetName mat)))"
proof -
  obtain r s1 where cg: "ComputeGradients cs xlocal Xlocal (interpolation_element_DN_chi grp) s = (r, s1)"
    by (cases "ComputeGradients cs xlocal Xlocal (interpolation_element_DN_chi grp) s")
  with assms(1) have m: "Material_Mat s1 mat_id = Some mat" by simp
  show ?thesis
  proof (cases r)
    case (Inl e)
    with cg show ?thesis by (simp add: ElementForceAndStiffness_def bindS_def)
  next
    case (Inr u)
    with cg m assms(2) show ?thesis
      by (simp add: ElementForceAndStiffness_def bindS_def dict_get_def mean_dilatation_def)
  qed
qed

text \<open>
  C7: the inner type check always takes its first branch: the block with the check is the
  block without it, for every input, and for a material of the supported class the
  pressure and the bulk modulus are those of the first branch.
\<close>

theorem inner_type_check_is_dead:
  "mean_dilatation ndim grp kin mat Ve = mean_dilatation_unconditional ndim grp kin mat Ve \<and>
   (isinstance_HyperElasticPlasticInPrincipal mat \<longrightarrow>
      mean_dilatation_pressure mat Jbar =
        bindE (dict_get (value_dict mat) MaterialKey_Kappa)
          (\<lambda>kappa. Inr (kappa / Jbar - kappa * ln Jbar / Jbar, kappa * ln Jbar / Jbar)))"
  by (auto simp: mean_dilatation_def mean_dilatation_unconditional_def mean_dilatation_pressure_def
        bindE_def Let_def split: sum.splits)

text \<open>
  C1, at the one-point element with \<open>JW = 2\<close>, stress 3 and shape gradient 1 (the
  pressure is zero there): the function returns the internal force 3, the Gauss-weighted
  sum is 6.
\<close>

theorem internal_force_not_weighted:
  "fst (ElementForceAndStiffness (recording one_point_kinematics (\<lambda>g. [[3]]) (\<lambda>g. [[[[7]]]]))
          1 [[0]] [[0]] 0 2 one_point_element one_point_group 0 one_point_state) =
     Inr ([3], \<lparr>epbar = [0], invCp = [[[1]]]\<rparr>) \<and>
   gauss_weighted_force 1 1 [2 * 1] [[[3]]] [[[1]]] = [6]"
  unfolding one_point_run by (simp add: gauss_weighted_force_def)

text \<open>
  C2, for a pass over the one-point element: the cursor ends at 1, the slots claimed by
  \<^verbatim>\<open>ConstitutiveMatrix\<close>, while the mean dilatation triplet has been written to slot 1
  and the specification expects the cursor at 2.
\<close>

theorem pass_cursor_misses_mean_dilatation:
  "fst (assembly_pass (claiming one_point_kinematics (\<lambda>g. [[3]]) (\<lambda>g. [[[[7]]]])) 1
          [one_point_task] one_point_state) = Inr () \<and>
   global_k (snd (assembly_pass (claiming one_point_kinematics (\<lambda>g. [[3]]) (\<lambda>g. [[[[7]]]])) 1
          [one_point_task] one_point_state)) =
     \<lparr>indexi = Some [0, 5], indexj = Some [0, 5], counter = Some 1, stiffness = Some [0, 2]\<rparr> \<and>
   expected_cursor 1 [one_point_task] = 2"
  by (simp add: assembly_pass_def expected_cursor_def efs_eval np_eval one_point_eval Let_def)

theorem shared_cursor_unchanged_witness:
  "cursor_untouched (recording one_point_kinematics (\<lambda>g. [[3]]) (\<lambda>g. [[[[7]]]])) \<and>
   fst (ElementForceAndStiffness (recording one_point_kinematics (\<lambda>g. [[3]]) (\<lambda>g. [[[[7]]]]))
          1 [[0]] [[0]] 0 2 one_point_element one_point_group 0 one_point_state) =
     Inr ([3], \<lparr>epbar = [0], invCp = [[[1]]]\<rparr>) \<and>
   counter (global_k (snd (ElementForceAndStiffness
          (recording one_point_kinematics (\<lambda>g. [[3]]) (\<lambda>g. [[[[7]]]]))
          1 [[0]] [[0]] 0 2 one_point_element one_point_group 0 one_point_state))) = Some 0 \<and>
   fst (snd (node_pair_loop 1 [[1]] [[5]] [1] 1 2 (node_pairs 1)
     (Some 0, \<lparr>indexi = Some [0, 0], indexj = Some [0, 0], counter = Some 0,
                  stiffness = Some [0, 0]\<rparr>))) = Some 1"
  using shared_cursor_unchanged [OF cursor_untouched_recording one_point_run one_point_pairs]
    cursor_untouched_recording
  unfolding one_point_run one_point_pairs
  by (simp add: one_point_state_def node_pairs_def)

theorem unsupported_material_raises_witness:
  "Material_Mat (snd (ComputeGradients (recording one_point_kinematics (\<lambda>g. [[3]]) (\<lambda>g. [[[[7]]]]))
      [[0]] [[0]] (interpolation_element_DN_chi one_point_group) one_point_state)) 1
     = Some elastic_material \<and>
   \<not> isinstance_HyperElasticPlasticInPrincipal elastic_material \<and>
   fst (ElementForceAndStiffness (recording one_point_kinematics (\<lambda>g. [[3]]) (\<lambda>g. [[[[7]]]]))
          1 [[0]] [[0]] 1 2 one_point_element one_point_group 0 one_point_state) =
     Inl (NoImplSuchMaterial ''ISOElastic'') \<and>
   global_k (snd (ElementForceAndStiffness
          (recording one_point_kinematics (\<lambda>g. [[3]]) (\<lambda>g. [[[[7]]]]))
          1 [[0]] [[0]] 1 2 one_point_element one_point_group 0 one_point_state)) =
     global_k one_point_state"
proof -
  have h1: "Material_Mat (snd (ComputeGradients
      (recording one_point_kinematics (\<lambda>g. [[3]]) (\<lambda>g. [[[[7]]]]))
      [[0]] [[0]] (interpolation_element_DN_chi one_point_group) one_point_state)) 1
     = Some elastic_material"
    by (simp add: recording_def one_point_state_def)
  have h2: "\<not> isinstance_HyperElasticPlasticInPrincipal elastic_material"
    by (simp add: elastic_material_def)
  from unsupported_material_raises [OF h1 h2, of 1 2 one_point_element 0] h1 h2
  show ?thesis by (simp add: recording_def elastic_material_def)
qed

theorem inner_type_check_is_dead_witness:
  "isinstance_HyperElasticPlasticInPrincipal unit_material \<and>
   mean_dilatation_pressure unit_material 2 = Inr (1 / 2 - ln 2 / 2, ln 2 / 2)"
  using inner_type_check_is_dead [of 1 one_point_group one_point_kinematics unit_material 2 2]
  by (simp add: unit_material_def bindE_def dict_get_def)

subsection \<open>The triplets of the mean dilatation term\<close>

lemma slice_assign_fits:
  assumes "slice_assign buf c n vals = Inr buf'" and "c + n \<le> length buf"
    and "length vals = 1 \<longrightarrow> n = 1"
  shows "length vals = n \<and> buf' = take c buf @ vals @ drop (c + n) buf"
  using assms by (auto simp: slice_assign_def Let_def min_def split: if_splits)

lemma block_written:
  assumes "length vals = n" and "c + n \<le> length buf"
  shows "length (take c buf @ vals @ drop (c + n) buf) = length buf"
    and "take c (take c buf @ vals @ drop (c + n) buf) = take c buf"
    and "take n (drop c (take c buf @ vals @ drop (c + n) buf)) = vals"
    and "drop (c + n) (take c buf @ vals @ drop (c + n) buf) = drop (c + n) buf"
proof -
  from assms show "length (take c buf @ vals @ drop (c + n) buf) = length buf" by auto
  from assms show "take c (take c buf @ vals @ drop (c + n) buf) = take c buf" by auto
  from assms show "take n (drop c (take c buf @ vals @ drop (c + n) buf)) = vals" by auto
  from assms show "drop (c + n) (take c buf @ vals @ drop (c + n) buf) = drop (c + n) buf" by auto
qed

lemma take_drop_cong:
  assumes "take (c + n) xs = take (c + n) ys"
  shows "take n (drop c xs) = take n (drop c ys)"
proof -
  have "take n (drop c xs) = drop c (take (c + n) xs)" by (simp add: drop_take)
  also have "\<dots> = drop c (take (c + n) ys)" by (simp add: assms)
  also have "\<dots> = take n (drop c ys)" by (simp add: drop_take)
  finally show ?thesis .
qed

lemma take_less_cong:
  assumes "take (c + n) xs = take (c + n) ys"
  shows "take c xs = take c ys"
proof -
  have "take c xs = take c (take (c + n) xs)" by (simp add: min_def)
  also have "\<dots> = take c (take (c + n) ys)" by (simp add: assms)
  also have "\<dots> = take c ys" by (simp add: min_def)
  finally show ?thesis .
qed

lemma column_length: "column A j = Inr v \<Longrightarrow> length v = length A"
  by (auto simp: column_def split: if_splits)

lemma length_concat_outer: "length (concat (outer a b)) = length a * length b"
  by (induction a) (simp_all add: outer_def)

lemma length_tile_flat: "length (tile_flat v n) = length v * n"
  by (induction n) (simp_all add: tile_flat_def)


lemma node_pair_step:
  assumes run: "node_pair ndim DNm dof nids kb ve (b, a) (Some c, gk) = (Inr (), (cnt', gk'))"
    and shape: "length DNm = ndim"
    and bufs: "indexi gk = Some bi" "indexj gk = Some bj" "stiffness gk = Some bs"
    and cap: "c + ndim ^ 2 \<le> length bi" "c + ndim ^ 2 \<le> length bj" "c + ndim ^ 2 \<le> length bs"
  shows "\<exists>ra rb vs. written_dofs ndim dof nids a = Inr ra \<and> written_dofs ndim dof nids b = Inr rb \<and>
           written_values DNm kb ve a b = Inr vs \<and>
           length ra = ndim ^ 2 \<and> length rb = ndim ^ 2 \<and> length vs = ndim ^ 2 \<and>
           cnt' = Some (c + ndim ^ 2) \<and>
           indexi gk' = Some (take c bi @ ra @ drop (c + ndim ^ 2) bi) \<and>
           indexj gk' = Some (take c bj @ rb @ drop (c + ndim ^ 2) bj) \<and>
           stiffness gk' = Some (take c bs @ vs @ drop (c + ndim ^ 2) bs)"
proof -
  from node_pair_Inr [OF run] bufs obtain DNa DNb ida dofa idb dofb bi' bj' bs' where
    ca: "column DNm a = Inr DNa" and cb: "column DNm b = Inr DNb" and
    ia: "item nids a = Inr ida" and da: "column_int dof (ida - 1) = Inr dofa" and
    ib: "item nids b = Inr idb" and db: "column_int dof (idb - 1) = Inr dofb" and
    wi: "slice_assign bi c (ndim ^ 2) (tile_flat dofa ndim) = Inr bi'" and
    wj: "slice_assign bj c (ndim ^ 2) (tile_flat dofb ndim) = Inr bj'" and
    ws: "slice_assign bs c (ndim ^ 2) (map (\<lambda>x. kb * ve * x) (concat (outer DNa DNb))) = Inr bs'" and
    res: "cnt' = Some (c + ndim ^ 2)"
         "gk' = gk\<lparr>indexi := Some bi', indexj := Some bj', stiffness := Some bs'\<rparr>"
    by auto
  have one: "length (tile_flat v ndim) = 1 \<longrightarrow> ndim ^ 2 = 1" for v :: "int list"
    by (auto simp: length_tile_flat)
  have lv: "length (map (\<lambda>x. kb * ve * x) (concat (outer DNa DNb))) = ndim ^ 2"
    using column_length [OF ca] column_length [OF cb] shape
    by (simp add: length_concat_outer power2_eq_square)
  from slice_assign_fits [OF wi cap(1) one]
  have i: "length (tile_flat dofa ndim) = ndim ^ 2"
     "bi' = take c bi @ tile_flat dofa ndim @ drop (c + ndim ^ 2) bi" by auto
  from slice_assign_fits [OF wj cap(2) one]
  have j: "length (tile_flat dofb ndim) = ndim ^ 2"
     "bj' = take c bj @ tile_flat dofb ndim @ drop (c + ndim ^ 2) bj" by auto
  from slice_assign_fits [OF ws cap(3)] lv
  have v: "bs' = take c bs @ map (\<lambda>x. kb * ve * x) (concat (outer DNa DNb)) @ drop (c + ndim ^ 2) bs"
    by auto
  have "written_dofs ndim dof nids a = Inr (tile_flat dofa ndim)"
       "written_dofs ndim dof nids b = Inr (tile_flat dofb ndim)"
       "written_values DNm kb ve a b = Inr (map (\<lambda>x. kb * ve * x) (concat (outer DNa DNb)))"
    using ca cb ia da ib db by (simp_all add: written_dofs_def written_values_def bindE_def)
  with i j v lv res show ?thesis by simp
qed

lemma node_pair_loop_blocks:
  assumes run: "node_pair_loop ndim DNm dof nids kb ve pairs (Some c, gk) = (Inr (), (cnt', gk'))"
    and shape: "length DNm = ndim"
    and bufs: "indexi gk = Some bi" "indexj gk = Some bj" "stiffness gk = Some bs"
    and cap: "c + length pairs * ndim ^ 2 \<le> length bi" "c + length pairs * ndim ^ 2 \<le> length bj"
             "c + length pairs * ndim ^ 2 \<le> length bs"
  shows "\<exists>bi' bj' bs'.
           indexi gk' = Some bi' \<and> indexj gk' = Some bj' \<and> stiffness gk' = Some bs' \<and>
           (length bi' = length bi \<and> length bj' = length bj \<and> length bs' = length bs) \<and>
           (take c bi' = take c bi \<and> take c bj' = take c bj \<and> take c bs' = take c bs) \<and>
           (drop (c + length pairs * ndim ^ 2) bi' = drop (c + length pairs * ndim ^ 2) bi \<and>
            drop (c + length pairs * ndim ^ 2) bj' = drop (c + length pairs * ndim ^ 2) bj \<and>
            drop (c + length pairs * ndim ^ 2) bs' = drop (c + length pairs * ndim ^ 2) bs) \<and>
           (\<forall>p < length pairs.
              written_dofs ndim dof nids (snd (pairs ! p)) =
                Inr (take (ndim ^ 2) (drop (c + p * ndim ^ 2) bi')) \<and>
              written_dofs ndim dof nids (fst (pairs ! p)) =
                Inr (take (ndim ^ 2) (drop (c + p * ndim ^ 2) bj')) \<and>
              written_values DNm kb ve (snd (pairs ! p)) (fst (pairs ! p)) =
                Inr (take (ndim ^ 2) (drop (c + p * ndim ^ 2) bs')))"
  using run bufs cap
proof (induction pairs arbitrary: c gk bi bj bs)
  case Nil
  then show ?case by (simp add: returnS_def)
next
  case (Cons ba pairs)
  define n where "n = ndim ^ 2"
  define k where "k = length pairs * n"
  obtain b a where ba: "ba = (b, a)" by (cases ba)
  from Cons.prems(1) obtain st1 where
    1: "node_pair ndim DNm dof nids kb ve (b, a) (Some c, gk) = (Inr (), st1)" and
    2: "node_pair_loop ndim DNm dof nids kb ve pairs st1 = (Inr (), (cnt', gk'))"
    by (auto simp: bindS_Inr ba)
  obtain c1 gk1 where st1: "st1 = (c1, gk1)" by (cases st1)
  have cap1: "c + n \<le> length bi" "c + n \<le> length bj" "c + n \<le> length bs"
    using Cons.prems(5,6,7) by (auto simp: n_def)
  from node_pair_step [OF 1 [unfolded st1] shape Cons.prems(2,3,4) cap1 [unfolded n_def]]
  obtain ra rb vs where
    e: "written_dofs ndim dof nids a = Inr ra" "written_dofs ndim dof nids b = Inr rb"
       "written_values DNm kb ve a b = Inr vs" and
    l: "length ra = n" "length rb = n" "length vs = n" and
    c1: "c1 = Some (c + n)" and
    g1: "indexi gk1 = Some (take c bi @ ra @ drop (c + n) bi)"
        "indexj gk1 = Some (take c bj @ rb @ drop (c + n) bj)"
        "stiffness gk1 = Some (take c bs @ vs @ drop (c + n) bs)"
    unfolding n_def by blast
  define bi1 where "bi1 = take c bi @ ra @ drop (c + n) bi"
  define bj1 where "bj1 = take c bj @ rb @ drop (c + n) bj"
  define bs1 where "bs1 = take c bs @ vs @ drop (c + n) bs"
  note wi = block_written [OF l(1) cap1(1), folded bi1_def]
    and wj = block_written [OF l(2) cap1(2), folded bj1_def]
    and ws = block_written [OF l(3) cap1(3), folded bs1_def]
  have cap2: "c + n + length pairs * ndim ^ 2 \<le> length bi1"
    "c + n + length pairs * ndim ^ 2 \<le> length bj1"
    "c + n + length pairs * ndim ^ 2 \<le> length bs1"
    using Cons.prems(5,6,7) wi(1) wj(1) ws(1) by (simp_all add: n_def)
  from Cons.IH [OF 2 [unfolded st1 c1] g1 [folded bi1_def bj1_def bs1_def] cap2]
  obtain bi' bj' bs' where
    f: "indexi gk' = Some bi'" "indexj gk' = Some bj'" "stiffness gk' = Some bs'" and
    len: "length bi' = length bi1" "length bj' = length bj1" "length bs' = length bs1" and
    tk: "take (c + n) bi' = take (c + n) bi1" "take (c + n) bj' = take (c + n) bj1"
        "take (c + n) bs' = take (c + n) bs1" and
    dr: "drop (c + n + k) bi' = drop (c + n + k) bi1"
        "drop (c + n + k) bj' = drop (c + n + k) bj1"
        "drop (c + n + k) bs' = drop (c + n + k) bs1" and
    blk: "\<forall>p < length pairs.
              written_dofs ndim dof nids (snd (pairs ! p)) =
                Inr (take n (drop (c + n + p * n) bi')) \<and>
              written_dofs ndim dof nids (fst (pairs ! p)) =
                Inr (take n (drop (c + n + p * n) bj')) \<and>
              written_values DNm kb ve (snd (pairs ! p)) (fst (pairs ! p)) =
                Inr (take n (drop (c + n + p * n) bs'))"
    unfolding n_def [symmetric] k_def [symmetric] by blast
  have total: "c + length (ba # pairs) * n = c + n + k"
    by (simp add: k_def)
  have shift: "drop (c + n + k) xs = drop (c + n + k) ys"
    if "drop (c + n) xs = drop (c + n) ys" for xs ys :: "'x list"
  proof -
    have "drop (c + n + k) xs = drop k (drop (c + n) xs)" by (simp add: add.commute)
    also have "\<dots> = drop k (drop (c + n) ys)" by (simp add: that)
    also have "\<dots> = drop (c + n + k) ys" by (simp add: add.commute)
    finally show ?thesis .
  qed
  have lens: "length bi' = length bi \<and> length bj' = length bj \<and> length bs' = length bs"
    using len wi(1) wj(1) ws(1) by simp
  have takes: "take c bi' = take c bi \<and> take c bj' = take c bj \<and> take c bs' = take c bs"
    using take_less_cong [OF tk(1)] take_less_cong [OF tk(2)] take_less_cong [OF tk(3)]
      wi(2) wj(2) ws(2) by simp
  have drops: "drop (c + n + k) bi' = drop (c + n + k) bi \<and>
      drop (c + n + k) bj' = drop (c + n + k) bj \<and> drop (c + n + k) bs' = drop (c + n + k) bs"
    using dr shift [OF wi(4)] shift [OF wj(4)] shift [OF ws(4)] by simp
  have blocks: "written_dofs ndim dof nids (snd ((ba # pairs) ! p)) =
                  Inr (take n (drop (c + p * n) bi')) \<and>
                written_dofs ndim dof nids (fst ((ba # pairs) ! p)) =
                  Inr (take n (drop (c + p * n) bj')) \<and>
                written_values DNm kb ve (snd ((ba # pairs) ! p)) (fst ((ba # pairs) ! p)) =
                  Inr (take n (drop (c + p * n) bs'))"
    if "p < length (ba # pairs)" for p
  proof (cases p)
    case 0
    have "take n (drop c bi') = ra" "take n (drop c bj') = rb" "take n (drop c bs') = vs"
      using take_drop_cong [OF tk(1)] take_drop_cong [OF tk(2)] take_drop_cong [OF tk(3)]
        wi(3) wj(3) ws(3) by simp_all
    with 0 e ba show ?thesis by simp
  next
    case (Suc q)
    with that have q: "q < length pairs" by simp
    have "c + Suc q * n = c + n + q * n" by simp
    with blk q Suc show ?thesis by (simp add: add.assoc)
  qed
  show ?case
    unfolding n_def [symmetric] total
    using f lens takes drops blocks by blast
qed

lemma node_pairs_nth:
  assumes "bnode < n" and "anode < n"
  shows "length (node_pairs n) = n ^ 2 \<and> bnode * n + anode < length (node_pairs n) \<and>
         node_pairs n ! (bnode * n + anode) = (bnode, anode)"
proof -
  have lt: "bnode * n + anode < n * n"
  proof -
    have "bnode * n + anode < bnode * n + n" using assms(2) by simp
    also have "\<dots> = Suc bnode * n" by simp
    also have "\<dots> \<le> n * n" using assms(1) by (simp only: mult_le_mono1 Suc_leI)
    finally show ?thesis .
  qed
  have "List.product [0..<n] [0..<n] ! (bnode * n + anode) =
          ([0..<n] ! ((bnode * n + anode) div n), [0..<n] ! ((bnode * n + anode) mod n))"
    using lt by (simp add: product_nth)
  also have "\<dots> = (bnode, anode)"
    using assms by simp
  finally show ?thesis using lt by (simp add: node_pairs_def power2_eq_square)
qed

text \<open>
  The blocks of the mean dilatation term: with the cursor at \<open>c\<close> and room for all
  blocks, the block of the pair \<^verbatim>\<open>(bnode, anode)\<close> lies at offset
  \<open>c + (bnode * n + anode) * dim\<^sup>2\<close>; the buffers keep their lengths and are
  unchanged outside the range from \<open>c\<close> to \<open>c + n\<^sup>2 * dim\<^sup>2\<close>.
\<close>

lemma mean_dilatation_blocks:
  assumes "isinstance_HyperElasticPlasticInPrincipal mat"
    and "length DN_x_mean = ndim"
    and "indexi (global_k s) = Some bi" and "indexj (global_k s) = Some bj"
    and "stiffness (global_k s) = Some bs" and "counter (global_k s) = Some c"
    and "c + (n_nodes_elem grp) ^ 2 * ndim ^ 2 \<le> length bi"
    and "c + (n_nodes_elem grp) ^ 2 * ndim ^ 2 \<le> length bj"
    and "c + (n_nodes_elem grp) ^ 2 * ndim ^ 2 \<le> length bs"
    and "mean_dilatation_stiffness ndim mat DN_x_mean ve kappa_bar ele grp s = (Inr (), s')"
    and "bnode < n_nodes_elem grp" and "anode < n_nodes_elem grp"
  shows "\<exists>bi' bj' bs'.
           indexi (global_k s') = Some bi' \<and> indexj (global_k s') = Some bj' \<and>
           stiffness (global_k s') = Some bs' \<and>
           (length bi' = length bi \<and> length bj' = length bj \<and> length bs' = length bs) \<and>
           written_dofs ndim (Mesh_dof_nodes s) (node_ids ele) anode =
             Inr (take (ndim ^ 2) (drop (c + (bnode * n_nodes_elem grp + anode) * ndim ^ 2) bi')) \<and>
           written_dofs ndim (Mesh_dof_nodes s) (node_ids ele) bnode =
             Inr (take (ndim ^ 2) (drop (c + (bnode * n_nodes_elem grp + anode) * ndim ^ 2) bj')) \<and>
           written_values DN_x_mean kappa_bar ve anode bnode =
             Inr (take (ndim ^ 2) (drop (c + (bnode * n_nodes_elem grp + anode) * ndim ^ 2) bs')) \<and>
           (take c bi' = take c bi \<and> take c bj' = take c bj \<and> take c bs' = take c bs) \<and>
           (drop (c + (n_nodes_elem grp) ^ 2 * ndim ^ 2) bi' =
              drop (c + (n_nodes_elem grp) ^ 2 * ndim ^ 2) bi \<and>
            drop (c + (n_nodes_elem grp) ^ 2 * ndim ^ 2) bj' =
              drop (c + (n_nodes_elem grp) ^ 2 * ndim ^ 2) bj \<and>
            drop (c + (n_nodes_elem grp) ^ 2 * ndim ^ 2) bs' =
              drop (c + (n_nodes_elem grp) ^ 2 * ndim ^ 2) bs)"
proof -
  define pairs where "pairs = node_pairs (n_nodes_elem grp)"
  from node_pairs_nth [OF assms(11) assms(12)]
  have np: "length pairs = (n_nodes_elem grp) ^ 2"
    "bnode * n_nodes_elem grp + anode < length pairs"
    "pairs ! (bnode * n_nodes_elem grp + anode) = (bnode, anode)"
    by (simp_all add: pairs_def)
  from assms(1,10) obtain cnt' gk' where
    loop: "node_pair_loop ndim DN_x_mean (Mesh_dof_nodes s) (node_ids ele) kappa_bar ve pairs
             (counter (global_k s), global_k s) = (Inr (), (cnt', gk'))"
    and s': "s' = s\<lparr>global_k := gk'\<lparr>counter := counter (global_k s)\<rparr>\<rparr>"
    by (auto simp: mean_dilatation_stiffness_def pairs_def split: prod.splits)
  from node_pair_loop_blocks [OF loop [unfolded assms(6)] assms(2) assms(3,4,5)
         assms(7,8,9) [folded np(1)]]
  obtain bi' bj' bs' where
    f: "indexi gk' = Some bi'" "indexj gk' = Some bj'" "stiffness gk' = Some bs'" and
    ln: "length bi' = length bi \<and> length bj' = length bj \<and> length bs' = length bs" and
    tk: "take c bi' = take c bi \<and> take c bj' = take c bj \<and> take c bs' = take c bs" and
    dr: "drop (c + length pairs * ndim ^ 2) bi' = drop (c + length pairs * ndim ^ 2) bi \<and>
         drop (c + length pairs * ndim ^ 2) bj' = drop (c + length pairs * ndim ^ 2) bj \<and>
         drop (c + length pairs * ndim ^ 2) bs' = drop (c + length pairs * ndim ^ 2) bs" and
    blk: "\<forall>p < length pairs.
              written_dofs ndim (Mesh_dof_nodes s) (node_ids ele) (snd (pairs ! p)) =
                Inr (take (ndim ^ 2) (drop (c + p * ndim ^ 2) bi')) \<and>
              written_dofs ndim (Mesh_dof_nodes s) (node_ids ele) (fst (pairs ! p)) =
                Inr (take (ndim ^ 2) (drop (c + p * ndim ^ 2) bj')) \<and>
              written_values DN_x_mean kappa_bar ve (snd (pairs ! p)) (fst (pairs ! p)) =
                Inr (take (ndim ^ 2) (drop (c + p * ndim ^ 2) bs'))"
    by blast
  from blk np(2) np(3)
  have here: "written_dofs ndim (Mesh_dof_nodes s) (node_ids ele) anode =
        Inr (take (ndim ^ 2) (drop (c + (bnode * n_nodes_elem grp + anode) * ndim ^ 2) bi')) \<and>
      written_dofs ndim (Mesh_dof_nodes s) (node_ids ele) bnode =
        Inr (take (ndim ^ 2) (drop (c + (bnode * n_nodes_elem grp + anode) * ndim ^ 2) bj')) \<and>
      written_values DN_x_mean kappa_bar ve anode bnode =
        Inr (take (ndim ^ 2) (drop (c + (bnode * n_nodes_elem grp + anode) * ndim ^ 2) bs'))"
    by (metis fst_conv snd_conv)
  have "indexi (global_k s') = Some bi'" "indexj (global_k s') = Some bj'"
    "stiffness (global_k s') = Some bs'"
    using f s' by simp_all
  with here ln tk dr [unfolded np(1)] show ?thesis by blast
qed


lemma nth_concat_rows:
  assumes "\<forall>r \<in> set xss. length r = m" and "i < length xss" and "j < m"
  shows "concat xss ! (i * m + j) = xss ! i ! j"
  using assms
proof (induction xss arbitrary: i)
  case Nil
  then show ?case by simp
next
  case (Cons r xss)
  have lr: "length r = m" using Cons.prems(1) by simp
  show ?case
  proof (cases i)
    case 0
    with lr Cons.prems(3) show ?thesis by (simp add: nth_append)
  next
    case (Suc k)
    with Cons.prems have k: "k < length xss" and all: "\<forall>r \<in> set xss. length r = m" by simp_all
    have "concat (r # xss) ! (Suc k * m + j) = concat xss ! (k * m + j)"
      using lr by (simp add: nth_append)
    with Cons.IH [OF all k Cons.prems(3)] Suc show ?thesis by simp
  qed
qed

lemma nth_take_drop:
  assumes "k < m" and "off + m \<le> length xs"
  shows "take m (drop off xs) ! k = xs ! (off + k)"
  using assms by simp

lemma column_nth:
  assumes "column A j = Inr v" and "i < length A"
  shows "v ! i = A ! i ! j"
  using assms by (auto simp: column_def split: if_splits)

lemma column_int_nth:
  assumes "column_int A nid = Inr v" and "0 \<le> nid"
  shows "length v = length A \<and> (\<forall>j < length A. v ! j = A ! j ! nat nid)"
  using assms by (auto simp: column_int_def split: if_splits)

text \<open>
  Entry by entry: in the block of the pair \<^verbatim>\<open>(bnode, anode)\<close>, slot \<open>i * dim + j\<close>
  holds the value \<open>kappa_bar * ve * DN_x_mean[i, anode] * DN_x_mean[j, bnode]\<close>, the row
  index \<open>dof_nodes[j, node of anode]\<close> and the column index
  \<open>dof_nodes[j, node of bnode]\<close>: row and column both follow \<open>j\<close>.
\<close>

lemma mean_dilatation_entries:
  assumes "isinstance_HyperElasticPlasticInPrincipal mat"
    and "length DN_x_mean = ndim"
    and "indexi (global_k s) = Some bi" and "indexj (global_k s) = Some bj"
    and "stiffness (global_k s) = Some bs" and "counter (global_k s) = Some c"
    and "c + (n_nodes_elem grp) ^ 2 * ndim ^ 2 \<le> length bi"
    and "c + (n_nodes_elem grp) ^ 2 * ndim ^ 2 \<le> length bj"
    and "c + (n_nodes_elem grp) ^ 2 * ndim ^ 2 \<le> length bs"
    and "mean_dilatation_stiffness ndim mat DN_x_mean ve kappa_bar ele grp s = (Inr (), s')"
    and "bnode < n_nodes_elem grp" and "anode < n_nodes_elem grp"
    and "1 \<le> node_ids ele ! anode" and "1 \<le> node_ids ele ! bnode"
    and "i < ndim" and "j < ndim"
  shows "\<exists>bi' bj' bs'.
           indexi (global_k s') = Some bi' \<and> indexj (global_k s') = Some bj' \<and>
           stiffness (global_k s') = Some bs' \<and>
           bs' ! (c + (bnode * n_nodes_elem grp + anode) * ndim ^ 2 + (i * ndim + j)) =
             kappa_bar * ve * (DN_x_mean ! i ! anode * DN_x_mean ! j ! bnode) \<and>
           bi' ! (c + (bnode * n_nodes_elem grp + anode) * ndim ^ 2 + (i * ndim + j)) =
             Mesh_dof_nodes s ! j ! nat (node_ids ele ! anode - 1) \<and>
           bj' ! (c + (bnode * n_nodes_elem grp + anode) * ndim ^ 2 + (i * ndim + j)) =
             Mesh_dof_nodes s ! j ! nat (node_ids ele ! bnode - 1)"
proof -
  define n where "n = n_nodes_elem grp"
  define off where "off = c + (bnode * n + anode) * ndim ^ 2"
  define k where "k = i * ndim + j"
  from mean_dilatation_blocks [OF assms(1-12)] obtain bi' bj' bs' where
    f: "indexi (global_k s') = Some bi'" "indexj (global_k s') = Some bj'"
       "stiffness (global_k s') = Some bs'" and
    ln: "length bi' = length bi" "length bj' = length bj" "length bs' = length bs" and
    ra: "written_dofs ndim (Mesh_dof_nodes s) (node_ids ele) anode =
           Inr (take (ndim ^ 2) (drop off bi'))" and
    rb: "written_dofs ndim (Mesh_dof_nodes s) (node_ids ele) bnode =
           Inr (take (ndim ^ 2) (drop off bj'))" and
    vs: "written_values DN_x_mean kappa_bar ve anode bnode =
           Inr (take (ndim ^ 2) (drop off bs'))"
    unfolding off_def n_def by blast
  have kk: "k < ndim ^ 2"
  proof -
    have "i * ndim + j < i * ndim + ndim" using assms(16) by simp
    also have "\<dots> = Suc i * ndim" by simp
    also have "\<dots> \<le> ndim * ndim" using assms(15) by (simp only: mult_le_mono1 Suc_leI)
    finally show ?thesis by (simp add: power2_eq_square k_def)
  qed
  have pos: "0 < ndim" using assms(15) by simp
  have fit: "off + ndim ^ 2 \<le> c + n ^ 2 * ndim ^ 2"
  proof -
    have "bnode * n + anode < n * n"
    proof -
      have "bnode * n + anode < bnode * n + n" using assms(12) by (simp add: n_def)
      also have "\<dots> = Suc bnode * n" by simp
      also have "\<dots> \<le> n * n" using assms(11) by (simp only: mult_le_mono1 Suc_leI n_def)
      finally show ?thesis .
    qed
    then have "Suc (bnode * n + anode) \<le> n * n" by simp
    then have "Suc (bnode * n + anode) * ndim ^ 2 \<le> (n * n) * ndim ^ 2"
      by (rule mult_le_mono1)
    then show ?thesis by (simp add: off_def power2_eq_square algebra_simps)
  qed
  have fits: "off + ndim ^ 2 \<le> length bi'" "off + ndim ^ 2 \<le> length bj'"
    "off + ndim ^ 2 \<le> length bs'"
    using fit assms(7,8,9) ln by (simp_all add: n_def)
  have rd: "bi' ! (off + k) = take (ndim ^ 2) (drop off bi') ! k"
    "bj' ! (off + k) = take (ndim ^ 2) (drop off bj') ! k"
    "bs' ! (off + k) = take (ndim ^ 2) (drop off bs') ! k"
    using nth_take_drop [OF kk fits(1)] nth_take_drop [OF kk fits(2)]
      nth_take_drop [OF kk fits(3)] by simp_all
  have dofs: "take (ndim ^ 2) (drop off b') ! k = Mesh_dof_nodes s ! j ! nat (node_ids ele ! node - 1)"
    if w: "written_dofs ndim (Mesh_dof_nodes s) (node_ids ele) node =
             Inr (take (ndim ^ 2) (drop off b'))"
      and ft: "off + ndim ^ 2 \<le> length b'" and one: "1 \<le> node_ids ele ! node"
    for b' :: "int list" and node
  proof -
    from w obtain nid v where
      nid: "item (node_ids ele) node = Inr nid" and
      col: "column_int (Mesh_dof_nodes s) (nid - 1) = Inr v" and
      tl: "take (ndim ^ 2) (drop off b') = tile_flat v ndim"
      by (auto simp: written_dofs_def bindE_Inr)
    from nid have "nid = node_ids ele ! node" by (auto simp: item_def split: if_splits)
    with one have nn: "0 \<le> nid - 1" by simp
    from column_int_nth [OF col nn]
    have lv: "length v = length (Mesh_dof_nodes s)"
      and nv: "\<forall>j < length (Mesh_dof_nodes s). v ! j = Mesh_dof_nodes s ! j ! nat (nid - 1)"
      by simp_all
    have "length (tile_flat v ndim) = ndim ^ 2" using tl [symmetric] ft by simp
    then have "length v * ndim = ndim * ndim" by (simp add: length_tile_flat power2_eq_square)
    with pos have lvn: "length v = ndim" by simp
    have "tile_flat v ndim ! (i * ndim + j) = replicate ndim v ! i ! j"
      unfolding tile_flat_def
      by (rule nth_concat_rows) (use lvn assms(15,16) in auto)
    also have "\<dots> = v ! j" using assms(15) by simp
    finally show ?thesis
      using tl nv lv lvn assms(16) \<open>nid = node_ids ele ! node\<close> by (simp add: k_def)
  qed
  have vals: "take (ndim ^ 2) (drop off bs') ! k =
      kappa_bar * ve * (DN_x_mean ! i ! anode * DN_x_mean ! j ! bnode)"
  proof -
    from vs obtain DNa DNb where
      ca: "column DN_x_mean anode = Inr DNa" and cb: "column DN_x_mean bnode = Inr DNb" and
      tl: "take (ndim ^ 2) (drop off bs') = map (\<lambda>x. kappa_bar * ve * x) (concat (outer DNa DNb))"
      by (auto simp: written_values_def bindE_Inr)
    have la: "length DNa = ndim" and lb: "length DNb = ndim"
      using column_length [OF ca] column_length [OF cb] assms(2) by simp_all
    have "concat (outer DNa DNb) ! (i * ndim + j) = outer DNa DNb ! i ! j"
      by (rule nth_concat_rows) (use la lb assms(15,16) in \<open>auto simp: outer_def\<close>)
    also have "\<dots> = DNa ! i * DNb ! j"
      using la lb assms(15,16) by (simp add: outer_def)
    also have "\<dots> = DN_x_mean ! i ! anode * DN_x_mean ! j ! bnode"
      using column_nth [OF ca] column_nth [OF cb] assms(2,15,16) by simp
    finally have "concat (outer DNa DNb) ! k =
        DN_x_mean ! i ! anode * DN_x_mean ! j ! bnode" by (simp add: k_def)
    moreover have "k < length (concat (outer DNa DNb))"
      using kk la lb by (simp add: length_concat_outer power2_eq_square)
    ultimately show ?thesis using tl by simp
  qed
  from f rd dofs [OF ra fits(1) assms(13)] dofs [OF rb fits(2) assms(14)] vals
  show ?thesis unfolding off_def k_def n_def by auto
qed

lemma plane_run:
  "ElementForceAndStiffness plane_collaborators 2 [[0, 0]] [[0, 0]] 0 1
     \<lparr>node_ids = [1]\<rparr> plane_group 0 plane_state =
   (Inr ([2, 3], \<lparr>epbar = [0], invCp = [[[1]]]\<rparr>),
    NLFEMDataBase.more_update
      (\<lambda>_. [ConstitutiveMatrix_call 0
               [[[[0, 0], [0, 0]], [[0, 0], [0, 0]]], [[[0, 0], [0, 0]], [[0, 0], [0, 0]]]] 1,
            GeometricMatrix_call [[13]] 1])
      (plane_state
         \<lparr>kinematics := plane_kinematics,
          global_k := \<lparr>indexi = Some [4, 5, 4, 5], indexj = Some [4, 5, 4, 5],
                       counter = Some 0, stiffness = Some [4, 6, 6, 9]\<rparr>\<rparr>))"
  by (simp add: efs_eval np_eval plane_collaborators_def recording_def plane_group_def
        plane_kinematics_def plane_state_def unit_material_def Let_def eval_nat_numeral)

text \<open>
  C4, which the code misses from two space dimensions on. On the plane element the block
  of the one node pair is the outer product of \<open>(2, 3)\<close> with itself at the rows and
  columns 4 and 5, the triplets \<open>(4, 4, 4)\<close>, \<open>(4, 5, 6)\<close>, \<open>(5, 4, 6)\<close>,
  \<open>(5, 5, 9)\<close>. The function writes \<open>(4, 4, 4)\<close>, \<open>(5, 5, 6)\<close>, \<open>(4, 4, 6)\<close>,
  \<open>(5, 5, 9)\<close>: the values are those of the outer product, in one contiguous block at
  the cursor, but the two off-diagonal values are filed on the diagonal.
\<close>

theorem mean_dilatation_block_mispaired:
  "fst (ElementForceAndStiffness plane_collaborators 2 [[0, 0]] [[0, 0]] 0 1
          \<lparr>node_ids = [1]\<rparr> plane_group 0 plane_state) =
     Inr ([2, 3], \<lparr>epbar = [0], invCp = [[[1]]]\<rparr>) \<and>
   triplets (global_k (snd (ElementForceAndStiffness plane_collaborators 2 [[0, 0]] [[0, 0]] 0 1
          \<lparr>node_ids = [1]\<rparr> plane_group 0 plane_state))) 0 4 =
     [(4, 4, 4), (5, 5, 6), (4, 4, 6), (5, 5, 9)] \<and>
   outer_product_block 1 1 [2, 3] [2, 3] [4, 5] [4, 5] =
     [(4, 4, 4), (4, 5, 6), (5, 4, 6), (5, 5, 9)]"
  unfolding plane_run
  by (simp add: triplets_def outer_product_block_def plane_state_def eval_nat_numeral)

subsection \<open>Pressure and bulk modulus\<close>









end
